theory Spec2Isabelle
  imports Main "HOL-Library.AList"
begin

section \<open>JavaScript strings\<close>

text \<open>
  The program is a single React component (\<^verbatim>\<open>src/index.tsx\<close>). Its strings are modelled
  as HOL strings, that is as byte sequences: ASCII text is written as a literal, and the
  Urdu texts of the source are written as the bytes of their UTF-8 encoding. None of the
  operations below depends on how many units a character takes.

  \<^verbatim>\<open>String.prototype.toLowerCase\<close> is modelled on the Basic Latin block, where it maps
  \<^verbatim>\<open>A\<close>..\<^verbatim>\<open>Z\<close> to \<^verbatim>\<open>a\<close>..\<^verbatim>\<open>z\<close>; every other byte is left as it is. This is exact for
  the label tables, whose only other script, Arabic, has no letter case; a search query
  with cased letters outside Basic Latin is not covered.

  \<^verbatim>\<open>includes\<close> is \<open>includes_s\<close> here.
\<close>

definition startsWith :: "string \<Rightarrow> string \<Rightarrow> bool" where
  "startsWith s p = (take (length p) s = p)"

definition endsWith :: "string \<Rightarrow> string \<Rightarrow> bool" where
  "endsWith s p = (length p \<le> length s \<and> drop (length s - length p) s = p)"

fun includes_s :: "string \<Rightarrow> string \<Rightarrow> bool" where
  "includes_s [] q = (q = [])"
| "includes_s (c # cs) q = (startsWith (c # cs) q \<or> includes_s cs q)"

definition lower_char :: "char \<Rightarrow> char" where
  "lower_char c =
     (let n = (of_char c :: nat) in if 65 \<le> n \<and> n \<le> 90 then char_of (n + 32) else c)"

definition toLowerCase :: "string \<Rightarrow> string" where
  "toLowerCase s = map lower_char s"

text \<open>
  \<^verbatim>\<open>s.split(sep)\<close> for a one-character separator. The result is never empty, so the
  last branch is not reached.
\<close>

fun split_on :: "char \<Rightarrow> string \<Rightarrow> string list" where
  "split_on sep [] = [[]]"
| "split_on sep (c # cs) =
     (if c = sep then [] # split_on sep cs
      else (case split_on sep cs of w # ws \<Rightarrow> (c # w) # ws | [] \<Rightarrow> [[c]]))"

text \<open>\<^verbatim>\<open>xs[i]\<close>: an index out of range reads \<^verbatim>\<open>undefined\<close>, here \<open>None\<close>.\<close>

definition index_opt :: "'a list \<Rightarrow> nat \<Rightarrow> 'a option" where
  "index_opt xs i = (if i < length xs then Some (xs ! i) else None)"

text \<open>
  Truthiness of a value of type \<^verbatim>\<open>string | undefined\<close>: \<^verbatim>\<open>undefined\<close> and the empty
  string are falsy. \<open>or_default a d\<close> is \<^verbatim>\<open>a || d\<close> for such a value, and \<open>interp\<close> is the
  text a template literal inserts for it.
\<close>

definition truthy :: "string option \<Rightarrow> bool" where
  "truthy v = (case v of None \<Rightarrow> False | Some t \<Rightarrow> t \<noteq> [])"

definition or_default :: "string option \<Rightarrow> string \<Rightarrow> string" where
  "or_default v d = (case v of None \<Rightarrow> d | Some t \<Rightarrow> if t = [] then d else t)"

definition interp :: "string option \<Rightarrow> string" where
  "interp v = (case v of None \<Rightarrow> ''undefined'' | Some t \<Rightarrow> t)"

section \<open>Types and constants\<close>

datatype Language = en | ur

text \<open>\<^verbatim>\<open>keyof DataInputs\<close>.\<close>

datatype Category = Kfield | KhandSpecimen | Kmicroscopy | Kgeochemistry | KremoteSensing

record DataInputs =
  field :: string
  handSpecimen :: string
  microscopy :: string
  geochemistry :: string
  remoteSensing :: string

text \<open>
  A \<^verbatim>\<open>File\<close> handle. Besides its name and declared MIME type it carries what the platform's
  \<^verbatim>\<open>FileReader\<close> will deliver for it: \<open>asText\<close> is \<^verbatim>\<open>reader.result\<close> after
  \<^verbatim>\<open>readAsText\<close>, \<open>asDataURL\<close> is \<^verbatim>\<open>reader.result\<close> after \<^verbatim>\<open>readAsDataURL\<close>, and \<open>None\<close>
  means that the read fails (the reader fires \<^verbatim>\<open>error\<close>, then \<^verbatim>\<open>loadend\<close>).
\<close>

record File =
  name :: string
  type :: string
  asText :: "string option"
  asDataURL :: "string option"

text \<open>
  The four values of \<^verbatim>\<open>Attachment.type\<close>, and the record itself; its fields \<^verbatim>\<open>id\<close>,
  \<^verbatim>\<open>file\<close> and \<^verbatim>\<open>type\<close> are \<open>att_id\<close>, \<open>att_file\<close> and \<open>att_type\<close> here.
\<close>

datatype AttachmentType = T_image | T_pdf | T_text | T_other

record Attachment =
  att_id :: string
  att_file :: File
  previewUrl :: "string option"
  att_type :: AttachmentType

text \<open>
  \<^verbatim>\<open>AttachmentsMap\<close> is a JavaScript object. \<^verbatim>\<open>Object.values\<close> lists the values in the order
  in which the keys were created, so the object is an association list; the spread
  \<^verbatim>\<open>{...prev, [field]: v}\<close> is \<open>AList.update\<close>, which overwrites an existing key in place and
  appends a new one.
\<close>

type_synonym AttachmentsMap = "(Category \<times> Attachment list) list"

text \<open>The keys in the order in which the literal \<^verbatim>\<open>INITIAL_ATTACHMENTS\<close> creates them.\<close>

definition categories :: "Category list" where
  "categories = [Kfield, KhandSpecimen, Kmicroscopy, Kgeochemistry, KremoteSensing]"

definition INITIAL_INPUTS :: DataInputs where
  "INITIAL_INPUTS =
     \<lparr>field = '''', handSpecimen = '''', microscopy = '''', geochemistry = '''',
      remoteSensing = ''''\<rparr>"

definition INITIAL_ATTACHMENTS :: AttachmentsMap where
  "INITIAL_ATTACHMENTS =
     [(Kfield, []), (KhandSpecimen, []), (Kmicroscopy, []), (Kgeochemistry, []),
      (KremoteSensing, [])]"

text \<open>
  The entries of \<^verbatim>\<open>LABELS\<close> and \<^verbatim>\<open>MODULE_DESCRIPTIONS\<close> that the prompt and the search
  filter read; the remaining entries are only rendered.
\<close>

record Labels =
  lbl_field :: string
  lbl_handSpecimen :: string
  lbl_microscopy :: string
  lbl_geochem :: string
  lbl_remote :: string
  lbl_results :: string
  lbl_heatmap :: string
  lbl_module1 :: string
  lbl_module2 :: string
  lbl_module3 :: string
  lbl_module4 :: string
  lbl_module5 :: string
  lbl_module6 :: string

record Descriptions =
  dsc_module1 :: string
  dsc_module2 :: string
  dsc_module3 :: string
  dsc_module4 :: string
  dsc_module5 :: string
  dsc_module6 :: string

definition LABELS_en :: "Labels" where
  \<open>LABELS_en =
    \<lparr>lbl_field =
        ''Field & Outcrop'',
      lbl_handSpecimen =
        ''Hand Specimen'',
      lbl_microscopy =
        ''Microscopy (Thin Section)'',
      lbl_geochem =
        ''Geochemistry'',
      lbl_remote =
        ''Satellite / Remote Sensing'',
      lbl_results =
        ''Analysis Results'',
      lbl_heatmap =
        ''Heat Map Logic'',
      lbl_module1 =
        ''1. Geological Context'',
      lbl_module2 =
        ''2. Structural Intelligence'',
      lbl_module3 =
        ''3. Ore Petrography'',
      lbl_module4 =
        ''4. Geochemical Intelligence'',
      lbl_module5 =
        ''5. Spectral AI'',
      lbl_module6 =
        ''6. Heat-Map Fusion''\<rparr>\<close>

definition LABELS_ur :: "Labels" where
  \<open>LABELS_ur =
    \<lparr>lbl_field =
        [CHR 0xD9, CHR 0x81, CHR 0xDB, CHR 0x8C, CHR 0xD9, CHR 0x84, CHR 0xDA, CHR 0x88, CHR 0x20, CHR 0xD8, CHR 0xA7, CHR 0xD9,
         CHR 0x88, CHR 0xD8, CHR 0xB1, CHR 0x20, CHR 0xD8, CHR 0xA2, CHR 0xD8, CHR 0xA4, CHR 0xD9, CHR 0xB9, CHR 0x20, CHR 0xDA,
         CHR 0xA9, CHR 0xD8, CHR 0xB1, CHR 0xD8, CHR 0xA7, CHR 0xD9, CHR 0xBE],
      lbl_handSpecimen =
        [CHR 0xDB, CHR 0x81, CHR 0xDB, CHR 0x8C, CHR 0xD9, CHR 0x86, CHR 0xDA, CHR 0x88, CHR 0x20, CHR 0xD8, CHR 0xA7, CHR 0xD8,
         CHR 0xB3, CHR 0xD9, CHR 0xBE, CHR 0xDB, CHR 0x8C, CHR 0xD8, CHR 0xB3, CHR 0xDB, CHR 0x8C, CHR 0xD9, CHR 0x85, CHR 0xDB,
         CHR 0x8C, CHR 0xD9, CHR 0x86],
      lbl_microscopy =
        [CHR 0xD9, CHR 0x85, CHR 0xD8, CHR 0xA7, CHR 0xD8, CHR 0xA6, CHR 0xDB, CHR 0x8C, CHR 0xDA, CHR 0xA9, CHR 0xD8, CHR 0xB1,
         CHR 0xD9, CHR 0x88, CHR 0xD8, CHR 0xB3, CHR 0xDA, CHR 0xA9, CHR 0xD9, CHR 0x88, CHR 0xD9, CHR 0xBE, CHR 0xDB, CHR 0x8C,
         CHR 0x20, CHR 0x28, CHR 0xD8, CHR 0xAA, CHR 0xDA, CHR 0xBE, CHR 0xDB, CHR 0x8C, CHR 0xD9, CHR 0x86, CHR 0x20, CHR 0xD8,
         CHR 0xB3, CHR 0xDB, CHR 0x8C, CHR 0xDA, CHR 0xA9, CHR 0xD8, CHR 0xB4, CHR 0xD9, CHR 0x86] @
        '')'',
      lbl_geochem =
        [CHR 0xD8, CHR 0xAC, CHR 0xDB, CHR 0x8C, CHR 0xD9, CHR 0x88, CHR 0x20, CHR 0xDA, CHR 0xA9, CHR 0xDB, CHR 0x8C, CHR 0xD9,
         CHR 0x85, CHR 0xD8, CHR 0xB3, CHR 0xD9, CHR 0xB9, CHR 0xD8, CHR 0xB1, CHR 0xDB, CHR 0x8C],
      lbl_remote =
        [CHR 0xD8, CHR 0xB3, CHR 0xDB, CHR 0x8C, CHR 0xD9, CHR 0xB9, CHR 0xD9, CHR 0x84, CHR 0xD8, CHR 0xA7, CHR 0xD8, CHR 0xA6,
         CHR 0xD9, CHR 0xB9] @
        '' / '' @
        [CHR 0xD8, CHR 0xB1, CHR 0xDB, CHR 0x8C, CHR 0xD9, CHR 0x85, CHR 0xD9, CHR 0x88, CHR 0xD9, CHR 0xB9, CHR 0x20, CHR 0xD8,
         CHR 0xB3, CHR 0xDB, CHR 0x8C, CHR 0xD9, CHR 0x86, CHR 0xD8, CHR 0xB3, CHR 0xD9, CHR 0x86, CHR 0xDA, CHR 0xAF],
      lbl_results =
        [CHR 0xD8, CHR 0xAA, CHR 0xD8, CHR 0xAC, CHR 0xD8, CHR 0xB2, CHR 0xDB, CHR 0x8C, CHR 0xD8, CHR 0xA7, CHR 0xD8, CHR 0xAA,
         CHR 0xDB, CHR 0x8C, CHR 0x20, CHR 0xD9, CHR 0x86, CHR 0xD8, CHR 0xAA, CHR 0xD8, CHR 0xA7, CHR 0xD8, CHR 0xA6, CHR 0xD8,
         CHR 0xAC],
      lbl_heatmap =
        [CHR 0xDB, CHR 0x81, CHR 0xDB, CHR 0x8C, CHR 0xD9, CHR 0xB9, CHR 0x20, CHR 0xD9, CHR 0x85, CHR 0xDB, CHR 0x8C, CHR 0xD9,
         CHR 0xBE, CHR 0x20, CHR 0xD9, CHR 0x84, CHR 0xD8, CHR 0xA7, CHR 0xD8, CHR 0xAC, CHR 0xDA, CHR 0xA9],
      lbl_module1 =
        ''1. '' @
        [CHR 0xD8, CHR 0xA7, CHR 0xD8, CHR 0xB1, CHR 0xD8, CHR 0xB6, CHR 0xDB, CHR 0x8C, CHR 0xD8, CHR 0xA7, CHR 0xD8, CHR 0xAA,
         CHR 0xDB, CHR 0x8C, CHR 0x20, CHR 0xD8, CHR 0xB3, CHR 0xDB, CHR 0x8C, CHR 0xD8, CHR 0xA7, CHR 0xD9, CHR 0x82, CHR 0x20,
         CHR 0xD9, CHR 0x88, CHR 0x20, CHR 0xD8, CHR 0xB3, CHR 0xD8, CHR 0xA8, CHR 0xD8, CHR 0xA7, CHR 0xD9, CHR 0x82],
      lbl_module2 =
        ''2. '' @
        [CHR 0xD8, CHR 0xB3, CHR 0xD8, CHR 0xA7, CHR 0xD8, CHR 0xAE, CHR 0xD8, CHR 0xAA, CHR 0xDB, CHR 0x8C, CHR 0x20, CHR 0xD8,
         CHR 0xB0, CHR 0xDB, CHR 0x81, CHR 0xD8, CHR 0xA7, CHR 0xD9, CHR 0x86, CHR 0xD8, CHR 0xAA],
      lbl_module3 =
        ''3. Ore Petrography'',
      lbl_module4 =
        ''4. '' @
        [CHR 0xD8, CHR 0xAC, CHR 0xDB, CHR 0x8C, CHR 0xD9, CHR 0x88, CHR 0x20, CHR 0xDA, CHR 0xA9, CHR 0xDB, CHR 0x8C, CHR 0xD9,
         CHR 0x85, CHR 0xDB, CHR 0x8C, CHR 0xDA, CHR 0xA9, CHR 0xD9, CHR 0x84, CHR 0x20, CHR 0xD8, CHR 0xB0, CHR 0xDB, CHR 0x81,
         CHR 0xD8, CHR 0xA7, CHR 0xD9, CHR 0x86, CHR 0xD8, CHR 0xAA],
      lbl_module5 =
        ''5. Spectral AI'',
      lbl_module6 =
        ''6. Heat-Map Fusion''\<rparr>\<close>

definition MODULE_DESCRIPTIONS_en :: "Descriptions" where
  \<open>MODULE_DESCRIPTIONS_en =
    \<lparr>dsc_module1 =
        ''Analyzes tectonic setting and lithology to identify permissive mineral systems.'',
      dsc_module2 =
        ''Evaluates faults and veins to determine fluid pathway probabilities.'',
      dsc_module3 =
        ''Interprets ore textures and mineral stages to build a paragenetic model.'',
      dsc_module4 =
        ''Detects elemental anomalies and pathfinder clusters from geochemical data.'',
      dsc_module5 =
        ''Uses spectral data to map alteration zones (clays, iron oxides).'',
      dsc_module6 =
        ''Combines all data layers to rank prospectivity targets (High/Med/Low).''\<rparr>\<close>

definition MODULE_DESCRIPTIONS_ur :: "Descriptions" where
  \<open>MODULE_DESCRIPTIONS_ur =
    \<lparr>dsc_module1 =
        [CHR 0xD9, CHR 0x85, CHR 0xD8, CHR 0xB9, CHR 0xD8, CHR 0xAF, CHR 0xD9, CHR 0x86, CHR 0xDB, CHR 0x8C, CHR 0x20, CHR 0xD9,
         CHR 0x86, CHR 0xD8, CHR 0xB8, CHR 0xD8, CHR 0xA7, CHR 0xD9, CHR 0x85, CHR 0x20, CHR 0xDA, CHR 0xA9, CHR 0xDB, CHR 0x8C,
         CHR 0x20, CHR 0xD8, CHR 0xB4, CHR 0xD9, CHR 0x86, CHR 0xD8, CHR 0xA7, CHR 0xD8, CHR 0xAE, CHR 0xD8, CHR 0xAA, CHR 0x20,
         CHR 0xDA, CHR 0xA9, CHR 0xDB, CHR 0x92, CHR 0x20, CHR 0xD9, CHR 0x84, CHR 0xDB, CHR 0x8C, CHR 0xDB, CHR 0x92, CHR 0x20,
         CHR 0xD9, CHR 0xB9, CHR 0xDB, CHR 0x8C, CHR 0xDA, CHR 0xA9, CHR 0xD9, CHR 0xB9, CHR 0xD9, CHR 0x88, CHR 0xD9, CHR 0x86,
         CHR 0xDA, CHR 0xA9, CHR 0x20, CHR 0xD8, CHR 0xA7, CHR 0xD9, CHR 0x88, CHR 0xD8, CHR 0xB1, CHR 0x20, CHR 0xDA, CHR 0x86,
         CHR 0xD9, CHR 0xB9, CHR 0xD8, CHR 0xA7, CHR 0xD9, CHR 0x86, CHR 0xDB, CHR 0x8C, CHR 0x20, CHR 0xD8, CHR 0xB3, CHR 0xD8,
         CHR 0xA7, CHR 0xD8, CHR 0xAE, CHR 0xD8, CHR 0xAA, CHR 0x20, CHR 0xDA, CHR 0xA9, CHR 0xD8, CHR 0xA7, CHR 0x20, CHR 0xD8,
         CHR 0xAA, CHR 0xD8, CHR 0xAC, CHR 0xD8, CHR 0xB2, CHR 0xDB, CHR 0x8C, CHR 0xDB, CHR 0x81, CHR 0x20, CHR 0xDA, CHR 0xA9,
         CHR 0xD8, CHR 0xB1, CHR 0xD8, CHR 0xAA, CHR 0xD8, CHR 0xA7, CHR 0x20, CHR 0xDB, CHR 0x81, CHR 0xDB, CHR 0x92, CHR 0xDB,
         CHR 0x94],
      dsc_module2 =
        [CHR 0xD9, CHR 0x81, CHR 0xD9, CHR 0x84, CHR 0xD9, CHR 0x88, CHR 0xD8, CHR 0xA6, CHR 0xDB, CHR 0x8C, CHR 0xDA, CHR 0x88,
         CHR 0x20, CHR 0xDA, CHR 0xA9, CHR 0xDB, CHR 0x92, CHR 0x20, CHR 0xD8, CHR 0xB1, CHR 0xD8, CHR 0xA7, CHR 0xD8, CHR 0xB3,
         CHR 0xD8, CHR 0xAA, CHR 0xD9, CHR 0x88, CHR 0xDA, CHR 0xBA, CHR 0x20, CHR 0xDA, CHR 0xA9, CHR 0xDB, CHR 0x92, CHR 0x20,
         CHR 0xD9, CHR 0x84, CHR 0xDB, CHR 0x8C, CHR 0xDB, CHR 0x92, CHR 0x20, CHR 0xD9, CHR 0x81, CHR 0xD8, CHR 0xA7, CHR 0xD9,
         CHR 0x84, CHR 0xD9, CHR 0xB9, CHR 0xD8, CHR 0xB3, CHR 0x20, CHR 0xD8, CHR 0xA7, CHR 0xD9, CHR 0x88, CHR 0xD8, CHR 0xB1,
         CHR 0x20, CHR 0xD8, CHR 0xB1, CHR 0xDA, CHR 0xAF, CHR 0xD9, CHR 0x88, CHR 0xDA, CHR 0xBA, CHR 0x20, CHR 0xDA, CHR 0xA9,
         CHR 0xD8, CHR 0xA7, CHR 0x20, CHR 0xD8, CHR 0xAC, CHR 0xD8, CHR 0xA7, CHR 0xD8, CHR 0xA6, CHR 0xD8, CHR 0xB2, CHR 0xDB,
         CHR 0x81, CHR 0x20, CHR 0xD9, CHR 0x84, CHR 0xDB, CHR 0x8C, CHR 0xD8, CHR 0xAA, CHR 0xD8, CHR 0xA7, CHR 0x20, CHR 0xDB,
         CHR 0x81, CHR 0xDB, CHR 0x92, CHR 0xDB, CHR 0x94],
      dsc_module3 =
        ''Ore '' @
        [CHR 0xDA, CHR 0xA9, CHR 0xDB, CHR 0x8C, CHR 0x20, CHR 0xD8, CHR 0xB3, CHR 0xD8, CHR 0xA7, CHR 0xD8, CHR 0xAE, CHR 0xD8,
         CHR 0xAA, CHR 0x20, CHR 0xD8, CHR 0xA7, CHR 0xD9, CHR 0x88, CHR 0xD8, CHR 0xB1, CHR 0x20, CHR 0xD9, CHR 0x85, CHR 0xD8,
         CHR 0xB9, CHR 0xD8, CHR 0xAF, CHR 0xD9, CHR 0x86, CHR 0xDB, CHR 0x8C, CHR 0x20, CHR 0xD9, CHR 0x85, CHR 0xD8, CHR 0xB1,
         CHR 0xD8, CHR 0xA7, CHR 0xD8, CHR 0xAD, CHR 0xD9, CHR 0x84, CHR 0x20, CHR 0xDA, CHR 0xA9, CHR 0xD8, CHR 0xA7, CHR 0x20,
         CHR 0xD9, CHR 0x85, CHR 0xD8, CHR 0xA7, CHR 0xDA, CHR 0x88, CHR 0xD9, CHR 0x84, CHR 0x20, CHR 0xD8, CHR 0xA8, CHR 0xD9,
         CHR 0x86, CHR 0xD8, CHR 0xA7, CHR 0xD8, CHR 0xAA, CHR 0xD8, CHR 0xA7, CHR 0x20, CHR 0xDB, CHR 0x81, CHR 0xDB, CHR 0x92,
         CHR 0xDB, CHR 0x94],
      dsc_module4 =
        [CHR 0xD8, CHR 0xAC, CHR 0xDB, CHR 0x8C, CHR 0xD9, CHR 0x88, CHR 0x20, CHR 0xDA, CHR 0xA9, CHR 0xDB, CHR 0x8C, CHR 0xD9,
         CHR 0x85, CHR 0xDB, CHR 0x8C, CHR 0xDA, CHR 0xA9, CHR 0xD9, CHR 0x84, CHR 0x20, CHR 0xDA, CHR 0x88, CHR 0xDB, CHR 0x8C,
         CHR 0xD9, CHR 0xB9, CHR 0xD8, CHR 0xA7, CHR 0x20, CHR 0xD8, CHR 0xB3, CHR 0xDB, CHR 0x92, CHR 0x20, CHR 0xD8, CHR 0xB9,
         CHR 0xD9, CHR 0x86, CHR 0xD8, CHR 0xA7, CHR 0xD8, CHR 0xB5, CHR 0xD8, CHR 0xB1, CHR 0x20, CHR 0xDA, CHR 0xA9, CHR 0xDB,
         CHR 0x8C, CHR 0x20, CHR 0xD8, CHR 0xA8, CHR 0xDB, CHR 0x92, CHR 0x20, CHR 0xD9, CHR 0x82, CHR 0xD8, CHR 0xA7, CHR 0xD8,
         CHR 0xB9, CHR 0xD8, CHR 0xAF, CHR 0xDA, CHR 0xAF, CHR 0xDB, CHR 0x8C, CHR 0xD9, CHR 0x88, CHR 0xDA, CHR 0xBA, CHR 0x20,
         CHR 0xDA, CHR 0xA9, CHR 0xDB, CHR 0x8C, CHR 0x20, CHR 0xD9, CHR 0x86, CHR 0xD8, CHR 0xB4, CHR 0xD8, CHR 0xA7, CHR 0xD9,
         CHR 0x86, CHR 0xD8, CHR 0xAF, CHR 0xDB, CHR 0x81, CHR 0xDB, CHR 0x8C, CHR 0x20, CHR 0xDA, CHR 0xA9, CHR 0xD8, CHR 0xB1,
         CHR 0xD8, CHR 0xAA, CHR 0xD8, CHR 0xA7, CHR 0x20, CHR 0xDB, CHR 0x81, CHR 0xDB, CHR 0x92, CHR 0xDB, CHR 0x94],
      dsc_module5 =
        ''Alteration '' @
        [CHR 0xD8, CHR 0xB2, CHR 0xD9, CHR 0x88, CHR 0xD9, CHR 0x86, CHR 0xD8, CHR 0xB2, CHR 0x20, CHR 0xDA, CHR 0xA9, CHR 0xDB,
         CHR 0x92, CHR 0x20, CHR 0xD9, CHR 0x86, CHR 0xD9, CHR 0x82, CHR 0xD8, CHR 0xB4, CHR 0xDB, CHR 0x92, CHR 0x20, CHR 0xD8,
         CHR 0xA8, CHR 0xD9, CHR 0x86, CHR 0xD8, CHR 0xA7, CHR 0xD9, CHR 0x86, CHR 0xDB, CHR 0x92, CHR 0x20, CHR 0xDA, CHR 0xA9,
         CHR 0xDB, CHR 0x92, CHR 0x20, CHR 0xD9, CHR 0x84, CHR 0xDB, CHR 0x8C, CHR 0xDB, CHR 0x92, CHR 0x20, CHR 0xD8, CHR 0xA7,
         CHR 0xD8, CHR 0xB3, CHR 0xD9, CHR 0xBE, CHR 0xDB, CHR 0x8C, CHR 0xDA, CHR 0xA9, CHR 0xD9, CHR 0xB9, CHR 0xD8, CHR 0xB1,
         CHR 0xD9, CHR 0x84, CHR 0x20, CHR 0xDA, CHR 0x88, CHR 0xDB, CHR 0x8C, CHR 0xD9, CHR 0xB9, CHR 0xD8, CHR 0xA7, CHR 0x20,
         CHR 0xD8, CHR 0xA7, CHR 0xD8, CHR 0xB3, CHR 0xD8, CHR 0xAA, CHR 0xD8, CHR 0xB9, CHR 0xD9, CHR 0x85, CHR 0xD8, CHR 0xA7,
         CHR 0xD9, CHR 0x84, CHR 0x20, CHR 0xDA, CHR 0xA9, CHR 0xD8, CHR 0xB1, CHR 0xD8, CHR 0xAA, CHR 0xD8, CHR 0xA7, CHR 0x20,
         CHR 0xDB, CHR 0x81, CHR 0xDB, CHR 0x92, CHR 0xDB, CHR 0x94],
      dsc_module6 =
        [CHR 0xD8, CHR 0xAA, CHR 0xD9, CHR 0x85, CHR 0xD8, CHR 0xA7, CHR 0xD9, CHR 0x85, CHR 0x20, CHR 0xDA, CHR 0x88, CHR 0xDB,
         CHR 0x8C, CHR 0xD9, CHR 0xB9, CHR 0xD8, CHR 0xA7, CHR 0x20, CHR 0xDA, CHR 0xA9, CHR 0xD9, CHR 0x88, CHR 0x20, CHR 0xD9,
         CHR 0x85, CHR 0xD9, CHR 0x84, CHR 0xD8, CHR 0xA7, CHR 0x20, CHR 0xDA, CHR 0xA9, CHR 0xD8, CHR 0xB1, CHR 0x20, CHR 0xD8,
         CHR 0xAA, CHR 0xD9, CHR 0x84, CHR 0xD8, CHR 0xA7, CHR 0xD8, CHR 0xB4, CHR 0x20, CHR 0xDA, CHR 0xA9, CHR 0xDB, CHR 0x92,
         CHR 0x20, CHR 0xD8, CHR 0xA7, CHR 0xDB, CHR 0x81, CHR 0xD8, CHR 0xAF, CHR 0xD8, CHR 0xA7, CHR 0xD9, CHR 0x81, CHR 0x20,
         CHR 0xDA, CHR 0xA9, CHR 0xDB, CHR 0x8C, CHR 0x20, CHR 0xD8, CHR 0xAF, CHR 0xD8, CHR 0xB1, CHR 0xD8, CHR 0xAC, CHR 0xDB,
         CHR 0x81, CHR 0x20, CHR 0xD8, CHR 0xA8, CHR 0xD9, CHR 0x86, CHR 0xD8, CHR 0xAF, CHR 0xDB, CHR 0x8C, CHR 0x20, CHR 0xDA,
         CHR 0xA9, CHR 0xD8, CHR 0xB1, CHR 0xD8, CHR 0xAA, CHR 0xD8, CHR 0xA7, CHR 0x20, CHR 0xDB, CHR 0x81, CHR 0xDB, CHR 0x92,
         CHR 0xDB, CHR 0x94]\<rparr>\<close>

definition systemInstructionEn :: "string" where
  \<open>systemInstructionEn =
    ''\<newline>'' @
    ''You are a Senior Economic Geologist and AI-assisted Mineral Exploration '' @
    ''Expert, specialized in ore deposits, mineral systems, structural controls, '' @
    ''geochemistry, ore microscopy, and satellite-based exploration. You operate '' @
    ''at research, academic, and industry exploration standards.\<newline>'' @
    ''\<newline>'' @
    ''Your Tasks:\<newline>'' @
    ''1. Classify the deposit (Porphyry, Epithermal, VMS, Skarn, IOCG, Orogenic '' @
    ''Gold, etc.) with explicit justification and confidence level.\<newline>'' @
    ''2. Analyze Mineralization Patterns (Structural vs lithological control, '' @
    ''Zonation).\<newline>'' @
    ''3. Suggest Heat-Map Classifications (Ore cores, Alteration halos).\<newline>'' @
    ''4. Build a Genetic Model (Metal source, fluid evolution, PT conditions).\<newline>'' @
    ''5. Provide Exploration Targets.\<newline>'' @
    ''\<newline>'' @
    ''Output Format:\<newline>'' @
    ''1. Ore Deposit Type + Confidence %\<newline>'' @
    ''2. Diagnostic Evidence (Field -> Lab -> Satellite)\<newline>'' @
    ''3. Mineral Assemblage & Paragenesis\<newline>'' @
    ''4. Heat Map Interpretation\<newline>'' @
    ''5. Genetic Model\<newline>'' @
    ''6. Exploration Targets & Recommendations\<newline>''\<close>

definition systemInstructionUr :: "string" where
  \<open>systemInstructionUr =
    ''\<newline>'' @
    [CHR 0xD8, CHR 0xA2, CHR 0xD9, CHR 0xBE, CHR 0x20, CHR 0xD8, CHR 0xA7, CHR 0xDB, CHR 0x8C, CHR 0xDA, CHR 0xA9, CHR 0x20,
     CHR 0xD8, CHR 0xB3, CHR 0xDB, CHR 0x8C, CHR 0xD9, CHR 0x86, CHR 0xD8, CHR 0xA6, CHR 0xD8, CHR 0xB1, CHR 0x20, CHR 0xD8,
     CHR 0xA7, CHR 0xDA, CHR 0xA9, CHR 0xD9, CHR 0x86, CHR 0xD8, CHR 0xA7, CHR 0xD9, CHR 0x85, CHR 0xDA, CHR 0xA9, CHR 0x20,
     CHR 0xD8, CHR 0xAC, CHR 0xDB, CHR 0x8C, CHR 0xD9, CHR 0x88, CHR 0xD9, CHR 0x84, CHR 0xD9, CHR 0x88, CHR 0xD8, CHR 0xAC,
     CHR 0xD8, CHR 0xB3, CHR 0xD9, CHR 0xB9, CHR 0x20, CHR 0xD8, CHR 0xA7, CHR 0xD9, CHR 0x88, CHR 0xD8, CHR 0xB1] @
    '' AI '' @
    [CHR 0xD9, CHR 0xBE, CHR 0xD8, CHR 0xB1, CHR 0x20, CHR 0xD9, CHR 0x85, CHR 0xD8, CHR 0xA8, CHR 0xD9, CHR 0x86, CHR 0xDB,
     CHR 0x8C, CHR 0x20, CHR 0xD9, CHR 0x85, CHR 0xD8, CHR 0xB9, CHR 0xD8, CHR 0xAF, CHR 0xD9, CHR 0x86, CHR 0xDB, CHR 0x8C,
     CHR 0x20, CHR 0xD8, CHR 0xAA, CHR 0xD9, CHR 0x84, CHR 0xD8, CHR 0xA7, CHR 0xD8, CHR 0xB4, CHR 0x20, CHR 0xDA, CHR 0xA9,
     CHR 0xDB, CHR 0x92, CHR 0x20, CHR 0xD9, CHR 0x85, CHR 0xD8, CHR 0xA7, CHR 0xDB, CHR 0x81, CHR 0xD8, CHR 0xB1, CHR 0x20,
     CHR 0xDB, CHR 0x81, CHR 0xDB, CHR 0x8C, CHR 0xDA, CHR 0xBA, CHR 0xD8, CHR 0x8C, CHR 0x20, CHR 0xD8, CHR 0xAC, CHR 0xD9,
     CHR 0x86, CHR 0xDB, CHR 0x81, CHR 0xDB, CHR 0x8C, CHR 0xDA, CHR 0xBA] @
    '' ore deposits'' @
    [CHR 0xD8, CHR 0x8C, CHR 0x20, CHR 0xD9, CHR 0x85, CHR 0xD8, CHR 0xB9, CHR 0xD8, CHR 0xAF, CHR 0xD9, CHR 0x86, CHR 0xDB,
     CHR 0x8C, CHR 0x20, CHR 0xD9, CHR 0x86, CHR 0xD8, CHR 0xB8, CHR 0xD8, CHR 0xA7, CHR 0xD9, CHR 0x85, CHR 0xD8, CHR 0x8C,
     CHR 0x20, CHR 0xD8, CHR 0xB3, CHR 0xD8, CHR 0xA7, CHR 0xD8, CHR 0xAE, CHR 0xD8, CHR 0xAA, CHR 0xDB, CHR 0x8C, CHR 0x20,
     CHR 0xDA, CHR 0xA9, CHR 0xD9, CHR 0x86, CHR 0xD9, CHR 0xB9, CHR 0xD8, CHR 0xB1, CHR 0xD9, CHR 0x88, CHR 0xD9, CHR 0x84,
     CHR 0xD8, CHR 0x8C, CHR 0x20, CHR 0xD8, CHR 0xAC, CHR 0xDB, CHR 0x8C, CHR 0xD9, CHR 0x88, CHR 0xD8, CHR 0xA7, CHR 0x20,
     CHR 0xDA, CHR 0xA9, CHR 0xDB, CHR 0x8C, CHR 0xD9, CHR 0x85, CHR 0xD8, CHR 0xB3, CHR 0xD9, CHR 0xB9, CHR 0xD8, CHR 0xB1,
     CHR 0xDB, CHR 0x8C, CHR 0xD8, CHR 0x8C] @
    '' ore microscopy '' @
    [CHR 0xD8, CHR 0xA7, CHR 0xD9, CHR 0x88, CHR 0xD8, CHR 0xB1, CHR 0x20, CHR 0xD8, CHR 0xB3, CHR 0xDB, CHR 0x8C, CHR 0xD9,
     CHR 0xB9, CHR 0xD9, CHR 0x84, CHR 0xD8, CHR 0xA7, CHR 0xD8, CHR 0xA6, CHR 0xD9, CHR 0xB9, CHR 0x20, CHR 0xDA, CHR 0x88,
     CHR 0xDB, CHR 0x8C, CHR 0xD9, CHR 0xB9, CHR 0xD8, CHR 0xA7, CHR 0x20, CHR 0xD9, CHR 0x85, CHR 0xDB, CHR 0x8C, CHR 0xDA,
     CHR 0xBA, CHR 0x20, CHR 0xD9, CHR 0x85, CHR 0xDB, CHR 0x81, CHR 0xD8, CHR 0xA7, CHR 0xD8, CHR 0xB1, CHR 0xD8, CHR 0xAA,
     CHR 0x20, CHR 0xD8, CHR 0xAD, CHR 0xD8, CHR 0xA7, CHR 0xD8, CHR 0xB5, CHR 0xD9, CHR 0x84, CHR 0x20, CHR 0xDB, CHR 0x81,
     CHR 0xDB, CHR 0x92, CHR 0xDB, CHR 0x94, CHR 0x20, CHR 0xD8, CHR 0xA2, CHR 0xD9, CHR 0xBE, CHR 0x20, CHR 0xD8, CHR 0xAA,
     CHR 0xD8, CHR 0xAD, CHR 0xD9, CHR 0x82, CHR 0xDB, CHR 0x8C, CHR 0xD9, CHR 0x82, CHR 0xDB, CHR 0x8C, CHR 0xD8, CHR 0x8C,
     CHR 0x20, CHR 0xD8, CHR 0xAA, CHR 0xD8, CHR 0xB9, CHR 0xD9, CHR 0x84, CHR 0xDB, CHR 0x8C, CHR 0xD9, CHR 0x85, CHR 0xDB,
     CHR 0x8C, CHR 0x20, CHR 0xD8, CHR 0xA7, CHR 0xD9, CHR 0x88, CHR 0xD8, CHR 0xB1, CHR 0x20, CHR 0xD8, CHR 0xA7, CHR 0xD9,
     CHR 0x86, CHR 0xDA, CHR 0x88, CHR 0xD8, CHR 0xB3, CHR 0xD9, CHR 0xB9, CHR 0xD8, CHR 0xB1, CHR 0xDB, CHR 0x8C, CHR 0x20,
     CHR 0xD9, CHR 0x85, CHR 0xD8, CHR 0xB9, CHR 0xDB, CHR 0x8C, CHR 0xD8, CHR 0xA7, CHR 0xD8, CHR 0xB1, CHR 0x20, CHR 0xD9,
     CHR 0xBE, CHR 0xD8, CHR 0xB1, CHR 0x20, CHR 0xDA, CHR 0xA9, CHR 0xD8, CHR 0xA7, CHR 0xD9, CHR 0x85, CHR 0x20, CHR 0xDA,
     CHR 0xA9, CHR 0xD8, CHR 0xB1, CHR 0xD8, CHR 0xAA, CHR 0xDB, CHR 0x92, CHR 0x20, CHR 0xDB, CHR 0x81, CHR 0xDB, CHR 0x8C,
     CHR 0xDA, CHR 0xBA, CHR 0xDB, CHR 0x94] @
    ''\<newline>'' @
    ''\<newline>'' @
    [CHR 0xD8, CHR 0xA2, CHR 0xD9, CHR 0xBE, CHR 0x20, CHR 0xDA, CHR 0xA9, CHR 0xDB, CHR 0x92, CHR 0x20, CHR 0xD9, CHR 0x81,
     CHR 0xD8, CHR 0xB1, CHR 0xD8, CHR 0xA7, CHR 0xD8, CHR 0xA6, CHR 0xD8, CHR 0xB6] @
    '':\<newline>'' @
    ''1. ore deposit '' @
    [CHR 0xDA, CHR 0xA9, CHR 0xDB, CHR 0x8C, CHR 0x20, CHR 0xD9, CHR 0x82, CHR 0xD8, CHR 0xB3, CHR 0xD9, CHR 0x85, CHR 0x20,
     CHR 0xDA, CHR 0xA9, CHR 0xDB, CHR 0x8C, CHR 0x20, CHR 0xD8, CHR 0xB4, CHR 0xD9, CHR 0x86, CHR 0xD8, CHR 0xA7, CHR 0xD8,
     CHR 0xAE, CHR 0xD8, CHR 0xAA, CHR 0x20, CHR 0xDA, CHR 0xA9, CHR 0xD8, CHR 0xB1, CHR 0xDB, CHR 0x8C, CHR 0xDA, CHR 0xBA] @
    '' (Porphyry'' @
    [CHR 0xD8, CHR 0x8C] @
    '' Epithermal'' @
    [CHR 0xD8, CHR 0x8C] @
    '' VMS'' @
    [CHR 0xD8, CHR 0x8C] @
    '' Skarn '' @
    [CHR 0xD9, CHR 0x88, CHR 0xD8, CHR 0xBA, CHR 0xDB, CHR 0x8C, CHR 0xD8, CHR 0xB1, CHR 0xDB, CHR 0x81, CHR 0x29, CHR 0x20,
     CHR 0xD8, CHR 0xA7, CHR 0xD9, CHR 0x88, CHR 0xD8, CHR 0xB1, CHR 0x20, CHR 0xD8, CHR 0xA7, CHR 0xD8, CHR 0xB9, CHR 0xD8,
     CHR 0xAA, CHR 0xD9, CHR 0x85, CHR 0xD8, CHR 0xA7, CHR 0xD8, CHR 0xAF, CHR 0x20, CHR 0xDA, CHR 0xA9, CHR 0xDB, CHR 0x8C,
     CHR 0x20, CHR 0xD8, CHR 0xB3, CHR 0xD8, CHR 0xB7, CHR 0xD8, CHR 0xAD, CHR 0x20, CHR 0xD8, CHR 0xA8, CHR 0xDB, CHR 0x8C,
     CHR 0xD8, CHR 0xA7, CHR 0xD9, CHR 0x86, CHR 0x20, CHR 0xDA, CHR 0xA9, CHR 0xD8, CHR 0xB1, CHR 0xDB, CHR 0x8C, CHR 0xDA,
     CHR 0xBA, CHR 0xDB, CHR 0x94] @
    ''\<newline>'' @
    ''2. Mineralization Pattern '' @
    [CHR 0xDA, CHR 0xA9, CHR 0xD8, CHR 0xA7, CHR 0x20, CHR 0xD8, CHR 0xAA, CHR 0xD8, CHR 0xAC, CHR 0xD8, CHR 0xB2, CHR 0xDB,
     CHR 0x8C, CHR 0xDB, CHR 0x81, CHR 0x20, CHR 0xDA, CHR 0xA9, CHR 0xD8, CHR 0xB1, CHR 0xDB, CHR 0x8C, CHR 0xDA, CHR 0xBA,
     CHR 0x20, CHR 0x28, CHR 0xD8, CHR 0xB3, CHR 0xD8, CHR 0xA7, CHR 0xD8, CHR 0xAE, CHR 0xD8, CHR 0xAA, CHR 0xDB, CHR 0x8C,
     CHR 0x20, CHR 0xDB, CHR 0x8C, CHR 0xD8, CHR 0xA7] @
    '' lithological '' @
    [CHR 0xDA, CHR 0xA9, CHR 0xD9, CHR 0x86, CHR 0xD9, CHR 0xB9, CHR 0xD8, CHR 0xB1, CHR 0xD9, CHR 0x88, CHR 0xD9, CHR 0x84,
     CHR 0x29, CHR 0xDB, CHR 0x94] @
    ''\<newline>'' @
    ''3. Heat-Map '' @
    [CHR 0xDA, CHR 0xA9, CHR 0xDB, CHR 0x8C, CHR 0x20, CHR 0xD8, CHR 0xAF, CHR 0xD8, CHR 0xB1, CHR 0xD8, CHR 0xAC, CHR 0xDB,
     CHR 0x81, CHR 0x20, CHR 0xD8, CHR 0xA8, CHR 0xD9, CHR 0x86, CHR 0xD8, CHR 0xAF, CHR 0xDB, CHR 0x8C, CHR 0x20, CHR 0xD8,
     CHR 0xAA, CHR 0xD8, CHR 0xAC, CHR 0xD9, CHR 0x88, CHR 0xDB, CHR 0x8C, CHR 0xD8, CHR 0xB2, CHR 0x20, CHR 0xDA, CHR 0xA9,
     CHR 0xD8, CHR 0xB1, CHR 0xDB, CHR 0x8C, CHR 0xDA, CHR 0xBA] @
    '' (ore cores, alteration halos)'' @
    [CHR 0xDB, CHR 0x94] @
    ''\<newline>'' @
    ''4. Genetic Model '' @
    [CHR 0xD8, CHR 0xA8, CHR 0xD9, CHR 0x86, CHR 0xD8, CHR 0xA7, CHR 0xD8, CHR 0xA6, CHR 0xDB, CHR 0x8C, CHR 0xDA, CHR 0xBA,
     CHR 0x20, CHR 0x28, CHR 0xD8, CHR 0xAF, CHR 0xDA, CHR 0xBE, CHR 0xD8, CHR 0xA7, CHR 0xD8, CHR 0xAA, CHR 0x20, CHR 0xDA,
     CHR 0xA9, CHR 0xDB, CHR 0x92, CHR 0x20, CHR 0xD9, CHR 0x85, CHR 0xD8, CHR 0xA7, CHR 0xD8, CHR 0xAE, CHR 0xD8, CHR 0xB0,
     CHR 0xD8, CHR 0x8C, CHR 0x20, CHR 0xD9, CHR 0x81, CHR 0xD9, CHR 0x84, CHR 0xD9, CHR 0x88, CHR 0xD8, CHR 0xA6, CHR 0xDB,
     CHR 0x8C, CHR 0xDA, CHR 0x88, CHR 0x20, CHR 0xD8, CHR 0xA7, CHR 0xD8, CHR 0xB1, CHR 0xD8, CHR 0xAA, CHR 0xD9, CHR 0x82,
     CHR 0xD8, CHR 0xA7, CHR 0xD8, CHR 0xA1, CHR 0xD8, CHR 0x8C, CHR 0x20, CHR 0xD8, CHR 0xAF, CHR 0xD8, CHR 0xB1, CHR 0xD8,
     CHR 0xAC, CHR 0xDB, CHR 0x81, CHR 0x20, CHR 0xD8, CHR 0xAD, CHR 0xD8, CHR 0xB1, CHR 0xD8, CHR 0xA7, CHR 0xD8, CHR 0xB1,
     CHR 0xD8, CHR 0xAA, CHR 0x20, CHR 0xD9, CHR 0x88, CHR 0x20, CHR 0xD8, CHR 0xAF, CHR 0xD8, CHR 0xA8, CHR 0xD8, CHR 0xA7,
     CHR 0xD8, CHR 0xA4, CHR 0x29, CHR 0xDB, CHR 0x94] @
    ''\<newline>'' @
    ''5. '' @
    [CHR 0xD8, CHR 0xAA, CHR 0xD9, CHR 0x84, CHR 0xD8, CHR 0xA7, CHR 0xD8, CHR 0xB4, CHR 0x20, CHR 0xDA, CHR 0xA9, CHR 0xDB,
     CHR 0x92, CHR 0x20, CHR 0xD8, CHR 0xA7, CHR 0xDB, CHR 0x81, CHR 0xD8, CHR 0xAF, CHR 0xD8, CHR 0xA7, CHR 0xD9, CHR 0x81] @
    '' (Exploration Targets) '' @
    [CHR 0xD9, CHR 0x81, CHR 0xD8, CHR 0xB1, CHR 0xD8, CHR 0xA7, CHR 0xDB, CHR 0x81, CHR 0xD9, CHR 0x85, CHR 0x20, CHR 0xDA,
     CHR 0xA9, CHR 0xD8, CHR 0xB1, CHR 0xDB, CHR 0x8C, CHR 0xDA, CHR 0xBA, CHR 0xDB, CHR 0x94] @
    ''\<newline>'' @
    ''\<newline>'' @
    [CHR 0xD8, CHR 0xA2, CHR 0xD8, CHR 0xA4, CHR 0xD9, CHR 0xB9, CHR 0x20, CHR 0xD9, CHR 0xBE, CHR 0xD9, CHR 0xB9, CHR 0x20,
     CHR 0xD9, CHR 0x81, CHR 0xD8, CHR 0xA7, CHR 0xD8, CHR 0xB1, CHR 0xD9, CHR 0x85, CHR 0xDB, CHR 0x8C, CHR 0xD9, CHR 0xB9] @
    '':\<newline>'' @
    ''1. Ore Deposit Type + Confidence %\<newline>'' @
    ''2. Diagnostic Evidence (Field -> Lab -> Satellite)\<newline>'' @
    ''3. Mineral Assemblage & Paragenesis\<newline>'' @
    ''4. Heat Map Interpretation\<newline>'' @
    ''5. Genetic Model\<newline>'' @
    ''6. Exploration Targets & Recommendations\<newline>'' @
    ''\<newline>'' @
    [CHR 0xD8, CHR 0xAC, CHR 0xD9, CHR 0x88, CHR 0xD8, CHR 0xA7, CHR 0xD8, CHR 0xA8, CHR 0x20, CHR 0xD8, CHR 0xA7, CHR 0xD8,
     CHR 0xB1, CHR 0xD8, CHR 0xAF, CHR 0xD9, CHR 0x88, CHR 0x20, CHR 0xD9, CHR 0x85, CHR 0xDB, CHR 0x8C, CHR 0xDA, CHR 0xBA,
     CHR 0x20, CHR 0xD8, CHR 0xAF, CHR 0xDB, CHR 0x8C, CHR 0xDA, CHR 0xBA, CHR 0xDB, CHR 0x94, CHR 0x20, CHR 0xD8, CHR 0xAA,
     CHR 0xDA, CHR 0xA9, CHR 0xD9, CHR 0x86, CHR 0xDB, CHR 0x8C, CHR 0xDA, CHR 0xA9, CHR 0xDB, CHR 0x8C, CHR 0x20, CHR 0xD8,
     CHR 0xA7, CHR 0xD8, CHR 0xB5, CHR 0xD8, CHR 0xB7, CHR 0xD9, CHR 0x84, CHR 0xD8, CHR 0xA7, CHR 0xD8, CHR 0xAD, CHR 0xD8,
     CHR 0xA7, CHR 0xD8, CHR 0xAA, CHR 0x20, CHR 0xD8, CHR 0xA7, CHR 0xD9, CHR 0x86, CHR 0xDA, CHR 0xAF, CHR 0xD8, CHR 0xB1,
     CHR 0xDB, CHR 0x8C, CHR 0xD8, CHR 0xB2, CHR 0xDB, CHR 0x8C, CHR 0x20, CHR 0xD9, CHR 0x85, CHR 0xDB, CHR 0x8C, CHR 0xDA,
     CHR 0xBA, CHR 0x20, CHR 0xD8, CHR 0xA8, CHR 0xDA, CHR 0xBE, CHR 0xDB, CHR 0x8C, CHR 0x20, CHR 0xD9, CHR 0x84, CHR 0xDA,
     CHR 0xA9, CHR 0xDA, CHR 0xBE, CHR 0x20, CHR 0xD8, CHR 0xB3, CHR 0xDA, CHR 0xA9, CHR 0xD8, CHR 0xAA, CHR 0xDB, CHR 0x92,
     CHR 0x20, CHR 0xDB, CHR 0x81, CHR 0xDB, CHR 0x8C, CHR 0xDA, CHR 0xBA, CHR 0xDB, CHR 0x94] @
    ''\<newline>''\<close>

definition heatmapPrompt :: "DataInputs \<Rightarrow> string" where
  \<open>heatmapPrompt inputs =
    ''Generate a comprehensive Python script using pandas, numpy, and matplotlib/seaborn '' @
    ''to create a geochemical heat map.\<newline>'' @
    ''         \<newline>'' @
    ''         CRITICAL REQUIREMENT: The script must include clear, easily editable '' @
    ''variables at the very top for FILE PATHS.\<newline>'' @
    ''         \<newline>'' @
    ''         Structure the script code as follows:\<newline>'' @
    ''         1. CONFIGURATION SECTION (Top of script):\<newline>'' @
    ''            - Define variable `DATA_FILE_PATH = "path/to/your/data.csv"` '' @
    ''(Comment: User must replace this)\<newline>'' @
    ''            - Define variable `OUTPUT_IMAGE_PATH = "path/to/your/output_heatmap.png"` '' @
    ''(Comment: User must replace this)\<newline>'' @
    ''            - Define variable `COORDINATE_COLS = ['X', 'Y']` (or similar '' @
    ''placeholder)\<newline>'' @
    ''            - Define variable `ELEMENT_COLS` based on the deposit type inferred '' @
    ''from inputs.\<newline>'' @
    ''\<newline>'' @
    ''         2. LOGIC:\<newline>'' @
    ''            - Load data from `DATA_FILE_PATH`.\<newline>'' @
    ''            - Normalize element values (e.g., MinMaxScaler).\<newline>'' @
    ''            - Weight elements based on the deposit model inferred from: '' @
    field inputs @ '' '' @ geochemistry inputs @
    ''\<newline>'' @
    ''            - Calculate a Composite Heat Index.\<newline>'' @
    ''            - Generate the visualization (e.g. Scatter or Interpolated Map).\<newline>'' @
    ''            - Save the plot to `OUTPUT_IMAGE_PATH`.\<newline>'' @
    ''\<newline>'' @
    ''         3. INSTRUCTIONS:\<newline>'' @
    ''             - Briefly explain how the user should change the paths.\<newline>'' @
    ''\<newline>'' @
    ''         Output ONLY the Python code and the instructions.\<newline>'' @
    ''         ''\<close>

definition errorMessageEn :: "string" where
  \<open>errorMessageEn =
    ''Error generating analysis. Please check console.''\<close>

definition errorMessageUr :: "string" where
  \<open>errorMessageUr =
    [CHR 0xD8, CHR 0xAA, CHR 0xD8, CHR 0xAC, CHR 0xD8, CHR 0xB2, CHR 0xDB, CHR 0x8C, CHR 0xDB, CHR 0x81, CHR 0x20, CHR 0xDA,
     CHR 0xA9, CHR 0xD8, CHR 0xB1, CHR 0xD9, CHR 0x86, CHR 0xDB, CHR 0x92, CHR 0x20, CHR 0xD9, CHR 0x85, CHR 0xDB, CHR 0x8C,
     CHR 0xDA, CHR 0xBA, CHR 0x20, CHR 0xD8, CHR 0xAE, CHR 0xD8, CHR 0xB1, CHR 0xD8, CHR 0xA7, CHR 0xD8, CHR 0xA8, CHR 0xDB,
     CHR 0x8C, CHR 0xDB, CHR 0x94, CHR 0x20, CHR 0xD8, CHR 0xA8, CHR 0xD8, CHR 0xB1, CHR 0xD8, CHR 0xA7, CHR 0xDB, CHR 0x81,
     CHR 0x20, CHR 0xDA, CHR 0xA9, CHR 0xD8, CHR 0xB1, CHR 0xD9, CHR 0x85, CHR 0x20, CHR 0xDA, CHR 0xA9, CHR 0xD9, CHR 0x86,
     CHR 0xD8, CHR 0xB3, CHR 0xD9, CHR 0x88, CHR 0xD9, CHR 0x84, CHR 0x20, CHR 0xDA, CHR 0x86, CHR 0xDB, CHR 0x8C, CHR 0xDA,
     CHR 0xA9, CHR 0x20, CHR 0xDA, CHR 0xA9, CHR 0xD8, CHR 0xB1, CHR 0xDB, CHR 0x8C, CHR 0xDA, CHR 0xBA, CHR 0xDB, CHR 0x94]\<close>

definition dataInputLabelEn :: "string" where
  \<open>dataInputLabelEn =
    ''Multi-Scale Data''\<close>

definition dataInputLabelUr :: "string" where
  \<open>dataInputLabelUr =
    [CHR 0xDA, CHR 0x88, CHR 0xDB, CHR 0x8C, CHR 0xD9, CHR 0xB9, CHR 0xD8, CHR 0xA7, CHR 0x20, CHR 0xD8, CHR 0xA7, CHR 0xD9,
     CHR 0x86, CHR 0x20, CHR 0xD9, CHR 0xBE, CHR 0xD9, CHR 0xB9]\<close>

definition LABELS :: "Language \<Rightarrow> Labels" where
  "LABELS l = (case l of en \<Rightarrow> LABELS_en | ur \<Rightarrow> LABELS_ur)"

definition MODULE_DESCRIPTIONS :: "Language \<Rightarrow> Descriptions" where
  "MODULE_DESCRIPTIONS l =
     (case l of en \<Rightarrow> MODULE_DESCRIPTIONS_en | ur \<Rightarrow> MODULE_DESCRIPTIONS_ur)"

section \<open>The attachment encoder\<close>

text \<open>
  A request part is \<^verbatim>\<open>{ text }\<close> or \<^verbatim>\<open>{ inlineData: { data, mimeType } }\<close>. The \<open>data\<close> of
  the latter is \<^verbatim>\<open>reader.result.split(',')[1]\<close>, which is \<^verbatim>\<open>undefined\<close> when the result has
  no comma.
\<close>

datatype Part =
  PText (text_of: string)
| PInlineData (data: "string option") (mimeType: string)

datatype error = ReadError

text \<open>
  \<^verbatim>\<open>fileToGenerativePart\<close> returns a promise; \<open>Inl ReadError\<close> is its rejection. The handler
  of \<^verbatim>\<open>error\<close> rejects before the handler of \<^verbatim>\<open>loadend\<close> runs, so a failed read never
  resolves.
\<close>

definition fileToGenerativePart :: "File \<Rightarrow> error + Part" where
  "fileToGenerativePart f =
     (if startsWith (type f) ''text/'' \<or> endsWith (name f) ''.csv''
         \<or> endsWith (name f) ''.json'' \<or> endsWith (name f) ''.md''
      then (case asText f of
              None \<Rightarrow> Inl ReadError
            | Some r \<Rightarrow>
                Inr (PText (''\<newline>[File Attachment: '' @ name f @ '']\<newline>'' @ r @ ''\<newline>'')))
      else (case asDataURL f of
              None \<Rightarrow> Inl ReadError
            | Some r \<Rightarrow> Inr (PInlineData (index_opt (split_on CHR '','' r) 1) (type f))))"

section \<open>The component state\<close>

datatype Tab = Tab_inputs | Tab_results | Tab_heatmap

text \<open>
  The argument of \<^verbatim>\<open>ai.models.generateContent\<close>. The role \<^verbatim>\<open>'user'\<close> and the temperature
  are literals of the call and are left out.
\<close>

record Request =
  model :: string
  parts :: "Part list"
  systemInstruction :: string

text \<open>What the backend call does in the end: it throws, or it returns a response
  whose \<^verbatim>\<open>text\<close> may be \<^verbatim>\<open>undefined\<close>.\<close>

datatype Response = Threw | Returned "string option"

text \<open>
  One call of \<^verbatim>\<open>runAnalysis\<close> is suspended twice at most: while its attachments are read
  and while the backend works. A suspended call keeps the values of its closure that it
  still needs: the language, and in the first phase what the reads will have produced.
\<close>

datatype Task =
  Reading Language "error + Request"
| Calling Language
| Finished

text \<open>
  The seven \<^verbatim>\<open>useState\<close> cells of \<^verbatim>\<open>App\<close>, followed by the environment the handlers act
  on: the credential \<^verbatim>\<open>process.env.API_KEY\<close>, the object URLs that \<^verbatim>\<open>URL.createObjectURL\<close>
  has handed out and that have not been revoked, the requests passed to the backend so
  far, the calls of \<^verbatim>\<open>runAnalysis\<close> in the order they were made, and the alerts shown.
\<close>

record App =
  language :: Language
  inputs :: DataInputs
  attachments :: AttachmentsMap
  loading :: bool
  result :: string
  activeTab :: Tab
  searchQuery :: string
  API_KEY :: "string option"
  objectURLs :: "string list"
  requests :: "Request list"
  running :: "Task list"
  alerts :: "string list"

definition initial :: "string option \<Rightarrow> App" where
  "initial key =
     \<lparr>language = en, inputs = INITIAL_INPUTS, attachments = INITIAL_ATTACHMENTS,
      loading = False, result = '''', activeTab = Tab_inputs, searchQuery = '''',
      API_KEY = key, objectURLs = [], requests = [], running = [], alerts = []\<rparr>"

section \<open>The input handlers\<close>

definition handleInputChange :: "Category \<Rightarrow> string \<Rightarrow> App \<Rightarrow> App" where
  "handleInputChange fld v s =
     s\<lparr>inputs :=
         (case fld of
            Kfield \<Rightarrow> (inputs s)\<lparr>field := v\<rparr>
          | KhandSpecimen \<Rightarrow> (inputs s)\<lparr>handSpecimen := v\<rparr>
          | Kmicroscopy \<Rightarrow> (inputs s)\<lparr>microscopy := v\<rparr>
          | Kgeochemistry \<Rightarrow> (inputs s)\<lparr>geochemistry := v\<rparr>
          | KremoteSensing \<Rightarrow> (inputs s)\<lparr>remoteSensing := v\<rparr>)\<rparr>"

text \<open>
  \<^verbatim>\<open>prev[field]\<close>. The type \<^verbatim>\<open>Record<keyof DataInputs, Attachment[]>\<close> promises that every
  key is there; lemma \<open>keys_exec\<close> below shows that it is in every state the component
  reaches, so the second branch is never taken.
\<close>

definition get_attachments :: "AttachmentsMap \<Rightarrow> Category \<Rightarrow> Attachment list" where
  "get_attachments m fld = (case map_of m fld of Some xs \<Rightarrow> xs | None \<Rightarrow> [])"

text \<open>
  A file of the \<^verbatim>\<open>FileList\<close> together with what the platform returns while its record is
  built: the string \<^verbatim>\<open>Math.random().toString(36).substr(2, 9)\<close> and the URL that
  \<^verbatim>\<open>URL.createObjectURL\<close> returns if it is called.
\<close>

record Pick =
  picked :: File
  rand_id :: string
  blob_url :: string

definition newAttachment :: "Pick \<Rightarrow> Attachment" where
  "newAttachment p =
     \<lparr>att_id = rand_id p,
      att_file = picked p,
      previewUrl = (if startsWith (type (picked p)) ''image/'' then Some (blob_url p) else None),
      att_type = (if startsWith (type (picked p)) ''image/'' then T_image
                  else if type (picked p) = ''application/pdf'' then T_pdf else T_text)\<rparr>"

definition handleAddAttachment :: "Category \<Rightarrow> Pick list option \<Rightarrow> App \<Rightarrow> App" where
  "handleAddAttachment fld files s =
     (case files of
        None \<Rightarrow> s
      | Some fs \<Rightarrow>
          s\<lparr>attachments :=
              AList.update fld (get_attachments (attachments s) fld @ map newAttachment fs)
                (attachments s),
            objectURLs :=
              objectURLs s
              @ map blob_url (filter (\<lambda>p. startsWith (type (picked p)) ''image/'') fs)\<rparr>)"

definition handleRemoveAttachment :: "Category \<Rightarrow> string \<Rightarrow> App \<Rightarrow> App" where
  "handleRemoveAttachment fld i s =
     s\<lparr>attachments :=
         AList.update fld (filter (\<lambda>att. att_id att \<noteq> i) (get_attachments (attachments s) fld))
           (attachments s)\<rparr>"

definition clearInputs :: "App \<Rightarrow> App" where
  "clearInputs s = s\<lparr>inputs := INITIAL_INPUTS, attachments := INITIAL_ATTACHMENTS, result := ''''\<rparr>"

section \<open>Assembling and submitting a request\<close>

definition inputSummary :: "Language \<Rightarrow> DataInputs \<Rightarrow> string" where
  "inputSummary l i =
     ''\<newline>--- INPUT DATA ---\<newline>''
     @ lbl_field (LABELS l) @ '': '' @ or_default (Some (field i)) ''N/A'' @ ''\<newline>''
     @ lbl_handSpecimen (LABELS l) @ '': '' @ or_default (Some (handSpecimen i)) ''N/A'' @ ''\<newline>''
     @ lbl_microscopy (LABELS l) @ '': '' @ or_default (Some (microscopy i)) ''N/A'' @ ''\<newline>''
     @ lbl_geochem (LABELS l) @ '': '' @ or_default (Some (geochemistry i)) ''N/A'' @ ''\<newline>''
     @ lbl_remote (LABELS l) @ '': '' @ or_default (Some (remoteSensing i)) ''N/A'' @ ''\<newline>''"

text \<open>The \<^verbatim>\<open>if\<close> chain that selects the prompt, in the order of the source.\<close>

definition mainPromptText :: "Language \<Rightarrow> DataInputs \<Rightarrow> Tab \<Rightarrow> string option \<Rightarrow> string" where
  "mainPromptText l i tab specificModule =
     (if truthy specificModule
      then ''Run specific module analysis: '' @ interp specificModule @ ''.\<newline>'' @ inputSummary l i
      else if tab = Tab_heatmap \<and> specificModule = Some ''Generate Python Code''
      then heatmapPrompt i
      else ''Perform a full Economic Geology Analysis based on the provided multi-scale data.\<newline>''
           @ inputSummary l i)"

definition Object_values :: "AttachmentsMap \<Rightarrow> Attachment list list" where
  "Object_values m = map snd m"

text \<open>The loop over \<open>allAttachments\<close>: each read is awaited before the next one starts,
  and the first rejected read leaves the loop.\<close>

fun collect_parts :: "Part list \<Rightarrow> Attachment list \<Rightarrow> error + Part list" where
  "collect_parts ps [] = Inr ps"
| "collect_parts ps (att # rest) =
     (case fileToGenerativePart (att_file att) of
        Inl e \<Rightarrow> Inl e
      | Inr part \<Rightarrow> collect_parts (ps @ [part]) rest)"

text \<open>
  Everything \<^verbatim>\<open>runAnalysis\<close> computes between its first lines and the backend call. It
  reads the state of the render in which the handler was created, here \<open>s\<close>.
\<close>

definition build_request :: "App \<Rightarrow> string option \<Rightarrow> error + Request" where
  "build_request s specificModule =
     (let allAttachments = concat (Object_values (attachments s)) in
      case collect_parts
             [PText (mainPromptText (language s) (inputs s) (activeTab s) specificModule)]
             allAttachments of
        Inl e \<Rightarrow> Inl e
      | Inr ps \<Rightarrow>
          Inr \<lparr>model = ''gemini-3-pro-preview'', parts = ps,
               systemInstruction =
                 (if language s = en then systemInstructionEn else systemInstructionUr)\<rparr>)"

text \<open>The \<^verbatim>\<open>catch\<close> block followed by \<^verbatim>\<open>finally\<close>.\<close>

definition catch_finally :: "Language \<Rightarrow> App \<Rightarrow> App" where
  "catch_finally l s =
     s\<lparr>result := (if l = en then errorMessageEn else errorMessageUr), loading := False\<rparr>"

text \<open>
  The call numbered \<open>n\<close> goes on after its reads: a rejected read enters \<^verbatim>\<open>catch\<close>,
  otherwise the request is passed to the backend and the call is suspended again.
\<close>

definition after_reads :: "nat \<Rightarrow> Language \<Rightarrow> error + Request \<Rightarrow> App \<Rightarrow> App" where
  "after_reads n l outcome s =
     (case outcome of
        Inl e \<Rightarrow> (catch_finally l s)\<lparr>running := (running s)[n := Finished]\<rparr>
      | Inr req \<Rightarrow> s\<lparr>requests := requests s @ [req], running := (running s)[n := Calling l]\<rparr>)"

text \<open>The call numbered \<open>n\<close> goes on after the backend has settled.\<close>

definition after_call :: "nat \<Rightarrow> Language \<Rightarrow> Response \<Rightarrow> App \<Rightarrow> App" where
  "after_call n l r s =
     (case r of
        Threw \<Rightarrow> (catch_finally l s)\<lparr>running := (running s)[n := Finished]\<rparr>
      | Returned t \<Rightarrow>
          s\<lparr>result := or_default t ''No analysis generated.'', loading := False,
            running := (running s)[n := Finished]\<rparr>)"

text \<open>
  The synchronous part of \<^verbatim>\<open>runAnalysis\<close>. With no attachment the loop awaits nothing and
  the backend is called before the handler returns; otherwise the call is suspended at
  the first read.
\<close>

definition runAnalysis :: "string option \<Rightarrow> App \<Rightarrow> App" where
  "runAnalysis specificModule s =
     (if \<not> truthy (API_KEY s) then s\<lparr>alerts := alerts s @ [''API Key missing'']\<rparr>
      else
        let n = length (running s);
            outcome = build_request s specificModule;
            s' = s\<lparr>loading := True, activeTab := Tab_results, result := '''',
                   running := running s @ [Reading (language s) outcome]\<rparr>
        in if concat (Object_values (attachments s)) = []
           then after_reads n (language s) outcome s'
           else s')"

section \<open>The search filter\<close>

record Item =
  label :: string

record ModuleItem = Item +
  description :: string

record ToolItem = Item +
  icon :: string
  tab :: Tab

definition dataInputLabel :: "Language \<Rightarrow> string" where
  "dataInputLabel l = (if l = en then dataInputLabelEn else dataInputLabelUr)"

definition showDataInput :: "Language \<Rightarrow> string \<Rightarrow> bool" where
  "showDataInput l q = includes_s (toLowerCase (dataInputLabel l)) (toLowerCase q)"

definition moduleList :: "Language \<Rightarrow> ModuleItem list" where
  "moduleList l =
     [\<lparr>label = lbl_module1 (LABELS l), description = dsc_module1 (MODULE_DESCRIPTIONS l)\<rparr>,
      \<lparr>label = lbl_module2 (LABELS l), description = dsc_module2 (MODULE_DESCRIPTIONS l)\<rparr>,
      \<lparr>label = lbl_module3 (LABELS l), description = dsc_module3 (MODULE_DESCRIPTIONS l)\<rparr>,
      \<lparr>label = lbl_module4 (LABELS l), description = dsc_module4 (MODULE_DESCRIPTIONS l)\<rparr>,
      \<lparr>label = lbl_module5 (LABELS l), description = dsc_module5 (MODULE_DESCRIPTIONS l)\<rparr>,
      \<lparr>label = lbl_module6 (LABELS l), description = dsc_module6 (MODULE_DESCRIPTIONS l)\<rparr>]"

definition filteredModules :: "Language \<Rightarrow> string \<Rightarrow> ModuleItem list" where
  "filteredModules l q =
     filter (\<lambda>m. includes_s (toLowerCase (label m)) (toLowerCase q)) (moduleList l)"

definition toolList :: "Language \<Rightarrow> ToolItem list" where
  "toolList l =
     [\<lparr>label = lbl_heatmap (LABELS l), icon = ''fa-map-location-dot'', tab = Tab_heatmap\<rparr>,
      \<lparr>label = lbl_results (LABELS l), icon = ''fa-scroll'', tab = Tab_results\<rparr>]"

definition filteredTools :: "Language \<Rightarrow> string \<Rightarrow> ToolItem list" where
  "filteredTools l q =
     filter (\<lambda>tool. includes_s (toLowerCase (label tool)) (toLowerCase q)) (toolList l)"

definition hasAnyMatch :: "Language \<Rightarrow> string \<Rightarrow> bool" where
  "hasAnyMatch l q =
     (showDataInput l q \<or> length (filteredModules l q) > 0 \<or> length (filteredTools l q) > 0)"

section \<open>The component as a transition system\<close>

text \<open>
  An event is a user action on a control, or the settling of a suspended call. A control
  acts only where the component renders it: the input cards, \<^verbatim>\<open>Clear All\<close> and the
  analysis button belong to the inputs view, the analysis button is disabled while
  \<open>loading\<close>, the script button belongs to the heat-map view, and the side bar shows one
  button per filtered module. Navigation is not restricted further.
\<close>

datatype Event =
  Toggle_language
| Change_input Category string
| Add_files Category "Pick list option"
| Remove_file Category string
| Press_clear
| Type_search string
| Open_tab Tab
| Press_analyze
| Press_module nat
| Press_generate_python
| Reads_settle nat
| Call_settle nat Response

fun step :: "Event \<Rightarrow> App \<Rightarrow> App" where
  "step Toggle_language s = s\<lparr>language := (if language s = en then ur else en)\<rparr>"
| "step (Change_input c v) s =
     (if activeTab s = Tab_inputs then handleInputChange c v s else s)"
| "step (Add_files c files) s =
     (if activeTab s = Tab_inputs then handleAddAttachment c files s else s)"
| "step (Remove_file c i) s =
     (if activeTab s = Tab_inputs then handleRemoveAttachment c i s else s)"
| "step Press_clear s = (if activeTab s = Tab_inputs then clearInputs s else s)"
| "step (Type_search q) s = s\<lparr>searchQuery := q\<rparr>"
| "step (Open_tab t) s = s\<lparr>activeTab := t\<rparr>"
| "step Press_analyze s =
     (if activeTab s = Tab_inputs \<and> \<not> loading s then runAnalysis None s else s)"
| "step (Press_module k) s =
     (case index_opt (filteredModules (language s) (searchQuery s)) k of
        None \<Rightarrow> s
      | Some m \<Rightarrow> runAnalysis (Some (label m)) s)"
| "step Press_generate_python s =
     (if activeTab s = Tab_heatmap then runAnalysis (Some ''Generate Python Code'') s else s)"
| "step (Reads_settle n) s =
     (case index_opt (running s) n of
        Some (Reading l outcome) \<Rightarrow> after_reads n l outcome s
      | _ \<Rightarrow> s)"
| "step (Call_settle n r) s =
     (case index_opt (running s) n of
        Some (Calling l) \<Rightarrow> after_call n l r s
      | _ \<Rightarrow> s)"

definition exec :: "Event list \<Rightarrow> App \<Rightarrow> App" where
  "exec evs s = fold step evs s"


section \<open>Facts about the string operations\<close>

lemma startsWith_iff: "startsWith s q \<longleftrightarrow> (\<exists>suf. s = q @ suf)"
  unfolding startsWith_def
proof
  assume "take (length q) s = q"
  then have "s = q @ drop (length q) s" by (metis append_take_drop_id)
  then show "\<exists>suf. s = q @ suf" ..
next
  assume "\<exists>suf. s = q @ suf"
  then show "take (length q) s = q" by auto
qed

lemma includes_s_iff: "includes_s s q \<longleftrightarrow> (\<exists>pre suf. s = pre @ q @ suf)"
proof (induction s)
  case Nil
  show ?case by auto
next
  case (Cons c cs)
  show ?case
  proof
    assume "includes_s (c # cs) q"
    then consider "startsWith (c # cs) q" | "includes_s cs q" by auto
    then show "\<exists>pre suf. c # cs = pre @ q @ suf"
    proof cases
      case 1
      then obtain suf where "c # cs = q @ suf" by (auto simp: startsWith_iff)
      then have "c # cs = [] @ q @ suf" by simp
      then show ?thesis by blast
    next
      case 2
      then obtain pre suf where "cs = pre @ q @ suf" using Cons.IH by blast
      then have "c # cs = (c # pre) @ q @ suf" by simp
      then show ?thesis by blast
    qed
  next
    assume "\<exists>pre suf. c # cs = pre @ q @ suf"
    then obtain pre suf where eq: "c # cs = pre @ q @ suf" by blast
    show "includes_s (c # cs) q"
    proof (cases pre)
      case Nil
      with eq have "startsWith (c # cs) q" by (auto simp: startsWith_iff)
      then show ?thesis by simp
    next
      case (Cons p ps)
      with eq have "cs = ps @ q @ suf" by simp
      then have "includes_s cs q" using Cons.IH by blast
      then show ?thesis by simp
    qed
  qed
qed

lemma includes_s_empty: "includes_s s []"
  by (induction s) (simp_all add: startsWith_def)

lemma split_on_payload:
  assumes "sep \<notin> set m" and "sep \<notin> set b"
  shows "index_opt (split_on sep (m @ sep # b)) 1 = Some b"
proof -
  have nosep: "split_on sep b = [b]" if "sep \<notin> set b" for b
    using that by (induction b) auto
  have "split_on sep (m @ sep # b) = [m, b]"
    using assms(1) by (induction m) (auto simp: nosep [OF assms(2)])
  then show ?thesis by (simp add: index_opt_def)
qed

section \<open>Facts about the attachment map\<close>

lemma keys_update:
  "map fst m = categories \<Longrightarrow> map fst (AList.update c v m) = categories"
  by (cases c) (auto simp: categories_def update_keys)


lemma keys_initial: "map fst (attachments (initial key)) = categories"
  by (simp add: initial_def INITIAL_ATTACHMENTS_def categories_def)

lemma after_reads_frame:
  "attachments (after_reads n l outcome s) = attachments s"
  "inputs (after_reads n l outcome s) = inputs s"
  "objectURLs (after_reads n l outcome s) = objectURLs s"
  by (simp_all add: after_reads_def catch_finally_def split: sum.splits)

lemma after_call_frame:
  "attachments (after_call n l r s) = attachments s"
  "inputs (after_call n l r s) = inputs s"
  "objectURLs (after_call n l r s) = objectURLs s"
  by (simp_all add: after_call_def catch_finally_def split: Response.splits)

lemma runAnalysis_frame:
  "attachments (runAnalysis m s) = attachments s"
  "inputs (runAnalysis m s) = inputs s"
  "objectURLs (runAnalysis m s) = objectURLs s"
  by (simp_all add: runAnalysis_def Let_def after_reads_frame)

lemma keys_step:
  assumes "map fst (attachments s) = categories"
  shows "map fst (attachments (step e s)) = categories"
proof (cases e)
  case (Add_files c files)
  then show ?thesis
    using assms by (simp add: handleAddAttachment_def keys_update split: option.splits)
next
  case (Remove_file c i)
  then show ?thesis using assms by (simp add: handleRemoveAttachment_def keys_update)
next
  case Press_clear
  then show ?thesis
    using assms by (simp add: clearInputs_def INITIAL_ATTACHMENTS_def categories_def)
next
  case (Reads_settle n)
  then show ?thesis
    using assms by (simp add: after_reads_frame split: option.splits Task.splits)
next
  case (Call_settle n r)
  then show ?thesis
    using assms by (simp add: after_call_frame split: option.splits Task.splits)
qed (use assms in \<open>simp_all add: handleInputChange_def runAnalysis_frame split: option.splits\<close>)

lemma exec_induct:
  assumes "P s" and "\<And>e t. P t \<Longrightarrow> P (step e t)"
  shows "P (exec evs s)"
  using assms(1) unfolding exec_def
  by (induction evs arbitrary: s) (simp_all add: assms(2))

lemma keys_exec: "map fst (attachments (exec evs (initial key))) = categories"
  by (rule exec_induct) (simp_all add: keys_initial keys_step)

lemma Object_values_by_category:
  assumes "map fst m = categories"
  shows "concat (Object_values m) = concat (map (get_attachments m) categories)"
proof -
  from assms obtain a b c d e where
    "m = [(Kfield, a), (KhandSpecimen, b), (Kmicroscopy, c), (Kgeochemistry, d),
          (KremoteSensing, e)]"
    by (auto simp: categories_def map_eq_Cons_conv)
  then show ?thesis
    by (simp add: Object_values_def categories_def get_attachments_def)
qed

lemma get_attachments_update:
  "get_attachments (AList.update c v m) c' = (if c' = c then v else get_attachments m c')"
  by (simp add: get_attachments_def update_conv')

lemma collect_parts_Inr:
  "collect_parts ps atts = Inr r \<Longrightarrow>
     \<exists>qs. r = ps @ qs \<and> map Inr qs = map (\<lambda>a. fileToGenerativePart (att_file a)) atts"
proof (induction atts arbitrary: ps)
  case Nil
  then show ?case by simp
next
  case (Cons att rest)
  from Cons.prems obtain part where
    part: "fileToGenerativePart (att_file att) = Inr part" and
    rest: "collect_parts (ps @ [part]) rest = Inr r"
    by (auto split: sum.splits)
  from Cons.IH [OF rest] obtain qs where
    "r = (ps @ [part]) @ qs" and
    "map Inr qs = map (\<lambda>a. fileToGenerativePart (att_file a)) rest"
    by blast
  with part have "r = ps @ (part # qs) \<and>
      map Inr (part # qs) = map (\<lambda>a. fileToGenerativePart (att_file a)) (att # rest)"
    by simp
  then show ?case by blast
qed

lemma collect_parts_Inl:
  "collect_parts ps atts = Inl ReadError \<longleftrightarrow>
     (\<exists>a \<in> set atts. fileToGenerativePart (att_file a) = Inl ReadError)"
proof (induction atts arbitrary: ps)
  case Nil
  show ?case by simp
next
  case (Cons att rest)
  show ?case
  proof (cases "fileToGenerativePart (att_file att)")
    case (Inl e)
    then show ?thesis by (cases e) simp
  next
    case (Inr part)
    then show ?thesis using Cons.IH [of "ps @ [part]"] by simp
  qed
qed

lemma filteredModules_empty_query: "filteredModules l [] = moduleList l"
  by (simp add: filteredModules_def toLowerCase_def includes_s_empty)

lemma runAnalysis_immediate:
  assumes "truthy (API_KEY s)" and "concat (Object_values (attachments s)) = []"
  shows "runAnalysis m s =
    s\<lparr>loading := True, activeTab := Tab_results, result := '''',
      running := running s @ [Calling (language s)],
      requests := requests s @
        [\<lparr>model = ''gemini-3-pro-preview'',
          parts = [PText (mainPromptText (language s) (inputs s) (activeTab s) m)],
          systemInstruction =
            (if language s = en then systemInstructionEn else systemInstructionUr)\<rparr>]\<rparr>"
  by (simp add: runAnalysis_def build_request_def after_reads_def Let_def assms)

lemma filteredTools_empty_query: "filteredTools l [] = toolList l"
  by (simp add: filteredTools_def toLowerCase_def includes_s_empty)

lemma lower_char_idem: "lower_char (lower_char c) = lower_char c"
  by (simp add: lower_char_def Let_def)

lemma toLowerCase_idem: "toLowerCase (toLowerCase s) = toLowerCase s"
  by (simp add: toLowerCase_def lower_char_idem)

lemma toLowerCase_OrE: "toLowerCase ''OrE'' = ''ore''"
  by code_simp

lemma toLowerCase_module3: "toLowerCase ''3. Ore Petrography'' = ''3. ore petrography''"
  by code_simp

lemma lbl_module3: "lbl_module3 (LABELS l) = ''3. Ore Petrography''"
  by (cases l) (simp_all add: LABELS_def LABELS_en_def LABELS_ur_def)

lemma update_values_subset:
  "set (concat (map snd (AList.update k v m))) \<subseteq> set v \<union> set (concat (map snd m))"
  by (induction m) auto

lemma get_attachments_subset: "set (get_attachments m k) \<subseteq> set (concat (map snd m))"
proof (cases "map_of m k")
  case None
  then show ?thesis by (simp add: get_attachments_def)
next
  case (Some xs)
  then have "(k, xs) \<in> set m" by (rule map_of_SomeD)
  then have "set xs \<subseteq> set (concat (map snd m))" by force
  with Some show ?thesis by (simp add: get_attachments_def)
qed

lemma all_attachments_step:
  assumes inv: "\<forall>a \<in> set (concat (Object_values (attachments s))). P a"
    and new: "\<And>p. P (newAttachment p)"
  shows "\<forall>a \<in> set (concat (Object_values (attachments (step e s)))). P a"
proof (cases e)
  case (Add_files c files)
  show ?thesis
  proof (cases "activeTab s = Tab_inputs \<and> files \<noteq> None")
    case True
    then obtain fs where fs: "files = Some fs" by auto
    have "attachments (step e s)
        = AList.update c (get_attachments (attachments s) c @ map newAttachment fs)
            (attachments s)"
      using True by (simp add: Add_files fs handleAddAttachment_def)
    then have "set (concat (Object_values (attachments (step e s))))
        \<subseteq> set (get_attachments (attachments s) c @ map newAttachment fs)
          \<union> set (concat (Object_values (attachments s)))"
      unfolding Object_values_def by (simp only: update_values_subset)
    also have "\<dots> \<subseteq> set (map newAttachment fs) \<union> set (concat (Object_values (attachments s)))"
      using get_attachments_subset [of "attachments s" c] by (auto simp: Object_values_def)
    finally show ?thesis using inv new by auto
  next
    case False
    then show ?thesis using inv by (auto simp: Add_files handleAddAttachment_def)
  qed
next
  case (Remove_file c i)
  show ?thesis
  proof (cases "activeTab s = Tab_inputs")
    case True
    have "attachments (step e s)
        = AList.update c (filter (\<lambda>att. att_id att \<noteq> i) (get_attachments (attachments s) c))
            (attachments s)"
      using True by (simp add: Remove_file handleRemoveAttachment_def)
    then have "set (concat (Object_values (attachments (step e s))))
        \<subseteq> set (filter (\<lambda>att. att_id att \<noteq> i) (get_attachments (attachments s) c))
          \<union> set (concat (Object_values (attachments s)))"
      unfolding Object_values_def by (simp only: update_values_subset)
    also have "\<dots> \<subseteq> set (concat (Object_values (attachments s)))"
      using get_attachments_subset [of "attachments s" c] by (auto simp: Object_values_def)
    finally show ?thesis using inv by auto
  next
    case False
    then show ?thesis using inv by (simp add: Remove_file)
  qed
next
  case Press_clear
  then show ?thesis
    using inv by (simp add: clearInputs_def INITIAL_ATTACHMENTS_def Object_values_def)
next
  case (Reads_settle n)
  then show ?thesis
    using inv by (simp add: after_reads_frame split: option.splits Task.splits)
next
  case (Call_settle n r)
  then show ?thesis
    using inv by (simp add: after_call_frame split: option.splits Task.splits)
qed (use inv in \<open>simp_all add: handleInputChange_def runAnalysis_frame split: option.splits\<close>)

lemma step_objectURLs: "\<exists>new. objectURLs (step e s) = objectURLs s @ new"
proof (cases e)
  case (Add_files c files)
  then show ?thesis by (simp add: handleAddAttachment_def split: option.splits)
next
  case (Reads_settle n)
  then show ?thesis by (simp add: after_reads_frame split: option.splits Task.splits)
next
  case (Call_settle n r)
  then show ?thesis by (simp add: after_call_frame split: option.splits Task.splits)
qed (simp_all add: handleInputChange_def handleRemoveAttachment_def clearInputs_def
      runAnalysis_frame split: option.splits)

lemma exec_objectURLs: "\<exists>new. objectURLs (exec evs s) = objectURLs s @ new"
proof (induction evs arbitrary: s)
  case Nil
  show ?case by (simp add: exec_def)
next
  case (Cons e evs)
  obtain n1 where n1: "objectURLs (step e s) = objectURLs s @ n1"
    using step_objectURLs by blast
  obtain n2 where "objectURLs (exec evs (step e s)) = objectURLs (step e s) @ n2"
    using Cons.IH by blast
  with n1 have "objectURLs (exec (e # evs) s) = objectURLs s @ (n1 @ n2)"
    by (simp add: exec_def)
  then show ?case by blast
qed

lemma index_opt_append_last: "index_opt (xs @ [x]) (length xs) = Some x"
  by (simp add: index_opt_def)

lemma build_request_Inl:
  "build_request s m = Inl ReadError \<longleftrightarrow>
     (\<exists>a \<in> set (concat (Object_values (attachments s))).
        fileToGenerativePart (att_file a) = Inl ReadError)"
proof -
  have "build_request s m = Inl ReadError \<longleftrightarrow>
      collect_parts [PText (mainPromptText (language s) (inputs s) (activeTab s) m)]
        (concat (Object_values (attachments s))) = Inl ReadError"
    by (auto simp: build_request_def Let_def split: sum.splits)
  then show ?thesis by (simp only: collect_parts_Inl)
qed

lemma runAnalysis_suspended:
  assumes "truthy (API_KEY s)" and "concat (Object_values (attachments s)) \<noteq> []"
  shows "runAnalysis m s =
    s\<lparr>loading := True, activeTab := Tab_results, result := '''',
      running := running s @ [Reading (language s) (build_request s m)]\<rparr>"
  using assms by (auto simp add: runAnalysis_def Let_def)

lemma build_request_parts:
  assumes "build_request s m = Inr req"
  shows "collect_parts [PText (mainPromptText (language s) (inputs s) (activeTab s) m)]
           (concat (Object_values (attachments s))) = Inr (parts req)"
  using assms by (auto simp: build_request_def Let_def split: sum.splits)

lemma runAnalysis_then_settle:
  assumes "truthy (API_KEY s)" and "build_request s m = Inr req"
  shows "requests (step (Reads_settle (length (running s))) (runAnalysis m s))
           = requests s @ [req]"
proof (cases "concat (Object_values (attachments s)) = []")
  case True
  have "runAnalysis m s =
      s\<lparr>loading := True, activeTab := Tab_results, result := '''',
        running := running s @ [Calling (language s)], requests := requests s @ [req]\<rparr>"
    using assms by (simp add: runAnalysis_def Let_def after_reads_def True)
  then show ?thesis by (simp add: index_opt_append_last)
next
  case False
  from runAnalysis_suspended [OF assms(1) False, of m] assms(2)
  show ?thesis by (simp add: index_opt_append_last after_reads_def)
qed

section \<open>The claims\<close>

subsection \<open>C1: a submission while another one is running\<close>

text \<open>
  C1 says that for every mode a submission made while one is running is a no-op: the
  state does not change and no second backend invocation is triggered, so at most one
  request is in flight. \<^verbatim>\<open>runAnalysis\<close> never reads \<open>loading\<close>; only the button of the
  inputs view is disabled while it is set. The module buttons of the side bar are not:
  in the initial state with a credential, pressing the first module button and then the
  second one, before the first call has settled, issues two requests and leaves two
  calls suspended on the backend.
\<close>

theorem second_submission_while_loading:
  "let s1 = step (Press_module 0) (initial (Some ''key''));
       s2 = step (Press_module 1) s1
   in loading s1 \<and> running s1 = [Calling en] \<and> length (requests s1) = 1
      \<and> running s2 = [Calling en, Calling en] \<and> length (requests s2) = 2"
proof -
  define s0 where "s0 = initial (Some ''key'')"
  define s1 where "s1 = step (Press_module 0) s0"
  define s2 where "s2 = step (Press_module 1) s1"
  have pre0: "truthy (API_KEY s0)" "concat (Object_values (attachments s0)) = []"
    "language s0 = en" "searchQuery s0 = []" "running s0 = []" "requests s0 = []"
    by (simp_all add: s0_def initial_def truthy_def Object_values_def INITIAL_ATTACHMENTS_def)
  have s1: "s1 = runAnalysis (Some (lbl_module1 (LABELS en))) s0"
    by (simp add: s1_def pre0 filteredModules_empty_query moduleList_def index_opt_def)
  have post1: "truthy (API_KEY s1)" "concat (Object_values (attachments s1)) = []"
    "language s1 = en" "searchQuery s1 = []" "running s1 = [Calling en]"
    "length (requests s1) = 1" "loading s1"
    by (simp_all add: s1 runAnalysis_immediate [OF pre0(1,2)] pre0)
  have s2: "s2 = runAnalysis (Some (lbl_module2 (LABELS en))) s1"
    by (simp add: s2_def post1 filteredModules_empty_query moduleList_def index_opt_def)
  have post2: "running s2 = [Calling en, Calling en]" "length (requests s2) = 2"
    by (simp_all add: s2 runAnalysis_immediate [OF post1(1,2)] post1)
  show ?thesis
    using post1 post2 by (simp add: Let_def s0_def s1_def s2_def)
qed

subsection \<open>C2: the order of the parts\<close>

text \<open>
  C2: in every state the component reaches, the request that a submission assembles and
  passes to the backend has the prompt as its part 0; the parts after it are the encoded
  attachments of field, hand specimen, microscopy, geochemistry and remote sensing, in
  this order of the categories, and within a category in the order of its list. That
  list is in insertion order: adding files appends their records in the order of the
  file list, removing one deletes it and keeps the others as they stand, and neither
  touches another category. The reads are awaited one after the other and the parts are
  a function of the state in which the submission started, so no order of completion
  enters.
\<close>

theorem parts_order:
  assumes "s = exec evs (initial key)"
    and "truthy (API_KEY s)"
    and "build_request s specificModule = Inr req"
  shows "requests (step (Reads_settle (length (running s))) (runAnalysis specificModule s))
       = requests s @ [req]
    \<and> parts req \<noteq> []
    \<and> parts req ! 0
       = PText (mainPromptText (language s) (inputs s) (activeTab s) specificModule)
    \<and> map Inr (tl (parts req))
       = map (\<lambda>a. fileToGenerativePart (att_file a))
           (concat (map (get_attachments (attachments s))
              [Kfield, KhandSpecimen, Kmicroscopy, Kgeochemistry, KremoteSensing]))
    \<and> get_attachments (attachments (handleAddAttachment c (Some fs) s)) c'
       = (if c' = c then get_attachments (attachments s) c @ map newAttachment fs
          else get_attachments (attachments s) c')
    \<and> get_attachments (attachments (handleRemoveAttachment c i s)) c'
       = (if c' = c then filter (\<lambda>att. att_id att \<noteq> i) (get_attachments (attachments s) c)
          else get_attachments (attachments s) c')"
proof -
  have keys: "map fst (attachments s) = categories"
    unfolding assms(1) by (rule keys_exec)
  from collect_parts_Inr [OF build_request_parts [OF assms(3)]]
  obtain qs where
    ps: "parts req = PText (mainPromptText (language s) (inputs s) (activeTab s) specificModule) # qs"
    and qs: "map Inr qs = map (\<lambda>a. fileToGenerativePart (att_file a))
        (concat (Object_values (attachments s)))"
    by auto
  have order: "map Inr (tl (parts req))
       = map (\<lambda>a. fileToGenerativePart (att_file a))
           (concat (map (get_attachments (attachments s))
              [Kfield, KhandSpecimen, Kmicroscopy, Kgeochemistry, KremoteSensing]))"
    using qs unfolding ps Object_values_by_category [OF keys] categories_def by simp
  have sent: "requests (step (Reads_settle (length (running s))) (runAnalysis specificModule s))
       = requests s @ [req]"
    using assms(2,3) by (rule runAnalysis_then_settle)
  have add: "get_attachments (attachments (handleAddAttachment c (Some fs) s)) c'
       = (if c' = c then get_attachments (attachments s) c @ map newAttachment fs
          else get_attachments (attachments s) c')"
    by (simp add: handleAddAttachment_def get_attachments_update)
  have remove: "get_attachments (attachments (handleRemoveAttachment c i s)) c'
       = (if c' = c then filter (\<lambda>att. att_id att \<noteq> i) (get_attachments (attachments s) c)
          else get_attachments (attachments s) c')"
    by (simp add: handleRemoveAttachment_def get_attachments_update)
  from sent order add remove show ?thesis
    by (simp add: ps)
qed

theorem parts_order_witness:
  "truthy (Some ''key'')
   \<and> build_request
       (exec [Add_files Kgeochemistry
                (Some [\<lparr>picked = \<lparr>name = ''assay.csv'', type = ''application/vnd.ms-excel'',
                                   asText = Some ''Cu,Au'',
                                   asDataURL = Some ''data:application/vnd.ms-excel;base64,Q3UsQXU=''\<rparr>,
                         rand_id = ''k3j9x0q2a'', blob_url = ''blob:preview-1''\<rparr>]),
              Add_files Kfield
                (Some [\<lparr>picked = \<lparr>name = ''outcrop.png'', type = ''image/png'',
                                   asText = Some ''?PNG'',
                                   asDataURL = Some ''data:image/png;base64,iVBORw0KGgo=''\<rparr>,
                         rand_id = ''b7m2p4w8z'', blob_url = ''blob:preview-2''\<rparr>])]
          (initial (Some ''key'')))
       None
     = Inr \<lparr>model = ''gemini-3-pro-preview'',
            parts = [PText (mainPromptText en INITIAL_INPUTS Tab_inputs None),
                     PInlineData (Some ''iVBORw0KGgo='') ''image/png'',
                     PText ''\<newline>[File Attachment: assay.csv]\<newline>Cu,Au\<newline>''],
            systemInstruction = systemInstructionEn\<rparr>
   \<and> map (\<lambda>a. fileToGenerativePart (att_file a))
       (concat (map (get_attachments (attachments
          (exec [Add_files Kgeochemistry
                (Some [\<lparr>picked = \<lparr>name = ''assay.csv'', type = ''application/vnd.ms-excel'',
                                   asText = Some ''Cu,Au'',
                                   asDataURL = Some ''data:application/vnd.ms-excel;base64,Q3UsQXU=''\<rparr>,
                         rand_id = ''k3j9x0q2a'', blob_url = ''blob:preview-1''\<rparr>]),
              Add_files Kfield
                (Some [\<lparr>picked = \<lparr>name = ''outcrop.png'', type = ''image/png'',
                                   asText = Some ''?PNG'',
                                   asDataURL = Some ''data:image/png;base64,iVBORw0KGgo=''\<rparr>,
                         rand_id = ''b7m2p4w8z'', blob_url = ''blob:preview-2''\<rparr>])]
          (initial (Some ''key'')))))
          [Kfield, KhandSpecimen, Kmicroscopy, Kgeochemistry, KremoteSensing]))
     = [Inr (PInlineData (Some ''iVBORw0KGgo='') ''image/png''),
        Inr (PText ''\<newline>[File Attachment: assay.csv]\<newline>Cu,Au\<newline>'')]"
proof -
  define csv where "csv = \<lparr>name = ''assay.csv'', type = ''application/vnd.ms-excel'',
      asText = Some ''Cu,Au'',
      asDataURL = Some ''data:application/vnd.ms-excel;base64,Q3UsQXU=''\<rparr>"
  define png where "png = \<lparr>name = ''outcrop.png'', type = ''image/png'', asText = Some ''?PNG'',
      asDataURL = Some ''data:image/png;base64,iVBORw0KGgo=''\<rparr>"
  define s where "s = exec
      [Add_files Kgeochemistry
         (Some [\<lparr>picked = csv, rand_id = ''k3j9x0q2a'', blob_url = ''blob:preview-1''\<rparr>]),
       Add_files Kfield
         (Some [\<lparr>picked = png, rand_id = ''b7m2p4w8z'', blob_url = ''blob:preview-2''\<rparr>])]
      (initial (Some ''key''))"
  have enc: "fileToGenerativePart csv
        = Inr (PText ''\<newline>[File Attachment: assay.csv]\<newline>Cu,Au\<newline>'')"
    "fileToGenerativePart png = Inr (PInlineData (Some ''iVBORw0KGgo='') ''image/png'')"
    by (simp_all add: csv_def png_def fileToGenerativePart_def startsWith_def endsWith_def
        index_opt_def)
  have st: "attachments s =
      [(Kfield, [newAttachment \<lparr>picked = png, rand_id = ''b7m2p4w8z'',
                                blob_url = ''blob:preview-2''\<rparr>]),
       (KhandSpecimen, []), (Kmicroscopy, []),
       (Kgeochemistry, [newAttachment \<lparr>picked = csv, rand_id = ''k3j9x0q2a'',
                                       blob_url = ''blob:preview-1''\<rparr>]),
       (KremoteSensing, [])]"
    "language s = en" "inputs s = INITIAL_INPUTS" "activeTab s = Tab_inputs"
    "API_KEY s = Some ''key''"
    by (simp_all add: s_def exec_def initial_def handleAddAttachment_def get_attachments_def
        INITIAL_ATTACHMENTS_def)
  have key: "truthy (API_KEY s)"
    by (simp add: st truthy_def)
  have req: "build_request s None
     = Inr \<lparr>model = ''gemini-3-pro-preview'',
            parts = [PText (mainPromptText en INITIAL_INPUTS Tab_inputs None),
                     PInlineData (Some ''iVBORw0KGgo='') ''image/png'',
                     PText ''\<newline>[File Attachment: assay.csv]\<newline>Cu,Au\<newline>''],
            systemInstruction = systemInstructionEn\<rparr>"
    by (simp add: build_request_def st Object_values_def newAttachment_def enc)
  from parts_order [OF s_def key req]
  have "map (\<lambda>a. fileToGenerativePart (att_file a))
       (concat (map (get_attachments (attachments s))
          [Kfield, KhandSpecimen, Kmicroscopy, Kgeochemistry, KremoteSensing]))
     = [Inr (PInlineData (Some ''iVBORw0KGgo='') ''image/png''),
        Inr (PText ''\<newline>[File Attachment: assay.csv]\<newline>Cu,Au\<newline>'')]"
    by simp
  with req show ?thesis
    by (simp add: s_def csv_def png_def truthy_def)
qed

subsection \<open>C3: the prompt of the heat-map script\<close>

text \<open>
  C3 says that \<^verbatim>\<open>runAnalysis('Generate Python Code')\<close>, called from the heat-map view, builds
  the structured script instruction with the field and geochemistry texts inserted.
  The branch that holds this instruction comes second in the \<^verbatim>\<open>if\<close> chain and asks for
  the same non-empty argument that the first branch already accepts: the call gets the
  prompt of a named module, and no argument at all reaches the instruction.
\<close>

theorem heatmap_prompt_never_selected:
  "mainPromptText l i Tab_heatmap (Some ''Generate Python Code'')
     = ''Run specific module analysis: Generate Python Code.\<newline>'' @ inputSummary l i
   \<and> mainPromptText l i t m \<noteq> heatmapPrompt i"
proof
  show "mainPromptText l i Tab_heatmap (Some ''Generate Python Code'')
     = ''Run specific module analysis: Generate Python Code.\<newline>'' @ inputSummary l i"
    by (simp add: mainPromptText_def truthy_def interp_def)
  show "mainPromptText l i t m \<noteq> heatmapPrompt i"
  proof (cases "truthy m")
    case True
    then show ?thesis by (simp add: mainPromptText_def heatmapPrompt_def)
  next
    case False
    then have "m \<noteq> Some ''Generate Python Code''" by (auto simp: truthy_def)
    with False show ?thesis by (simp add: mainPromptText_def heatmapPrompt_def)
  qed
qed

subsection \<open>C4: a failing read\<close>

text \<open>
  C4 says that a failing read aborts the submission before any backend call, keeps the
  inputs, and ends in a failure whose message identifies the file. The first two hold;
  the message is the one fixed sentence of the \<^verbatim>\<open>catch\<close> block. With a single attachment
  named \<^verbatim>\<open>core_log.pdf\<close> whose read fails, the held result after the failure is that
  sentence, and it does not contain the name of the file.
\<close>

theorem read_failure_message_counterexample:
  "result
     (exec [Add_files Kfield
              (Some [\<lparr>picked = \<lparr>name = ''core_log.pdf'', type = ''application/pdf'',
                                 asText = None, asDataURL = None\<rparr>,
                       rand_id = ''k3j9x0q2a'', blob_url = ''blob:preview-1''\<rparr>]),
            Press_analyze, Reads_settle 0]
        (initial (Some ''key'')))
     = ''Error generating analysis. Please check console.''
   \<and> \<not> includes_s ''Error generating analysis. Please check console.'' ''core_log.pdf''"
proof -
  define f where "f = \<lparr>name = ''core_log.pdf'', type = ''application/pdf'',
      asText = None, asDataURL = None\<rparr>"
  define p where "p = \<lparr>picked = f, rand_id = ''k3j9x0q2a'', blob_url = ''blob:preview-1''\<rparr>"
  define s1 where "s1 = step (Add_files Kfield (Some [p])) (initial (Some ''key''))"
  have s1: "truthy (API_KEY s1)" "activeTab s1 = Tab_inputs" "\<not> loading s1" "running s1 = []"
    "language s1 = en" "concat (Object_values (attachments s1)) = [newAttachment p]"
    by (simp_all add: s1_def initial_def handleAddAttachment_def truthy_def Object_values_def
        INITIAL_ATTACHMENTS_def get_attachments_def)
  have "fileToGenerativePart (att_file (newAttachment p)) = Inl ReadError"
    by (simp add: newAttachment_def p_def f_def fileToGenerativePart_def startsWith_def
        endsWith_def)
  then have "build_request s1 None = Inl ReadError"
    by (simp add: build_request_Inl s1)
  then have "step Press_analyze s1 =
      s1\<lparr>loading := True, activeTab := Tab_results, result := '''',
        running := [Reading en (Inl ReadError)]\<rparr>"
    using s1 by (simp add: runAnalysis_suspended)
  then have "result (step (Reads_settle 0) (step Press_analyze s1)) = errorMessageEn"
    by (simp add: index_opt_def after_reads_def catch_finally_def)
  then have "result (exec [Add_files Kfield (Some [p]), Press_analyze, Reads_settle 0]
        (initial (Some ''key''))) = ''Error generating analysis. Please check console.''"
    by (simp add: exec_def s1_def errorMessageEn_def)
  moreover have
    "\<not> includes_s ''Error generating analysis. Please check console.'' ''core_log.pdf''"
    by (simp add: startsWith_def)
  ultimately show ?thesis by (simp add: p_def f_def)
qed

text \<open>
  C4 as amended: if the read of any attachment fails, the submission passes no request
  to the backend, neither when it starts nor when its reads have settled; afterwards
  \<open>loading\<close> is false, the held result is the fixed error sentence of the language in
  which the submission was started (the sentence names no file), and the inputs and the
  attachments are what they were.
\<close>

theorem read_failure_aborts:
  assumes "truthy (API_KEY s)"
    and "a \<in> set (concat (Object_values (attachments s)))"
    and "fileToGenerativePart (att_file a) = Inl ReadError"
  shows "requests (runAnalysis m s) = requests s
    \<and> requests (step (Reads_settle (length (running s))) (runAnalysis m s)) = requests s
    \<and> loading (step (Reads_settle (length (running s))) (runAnalysis m s)) = False
    \<and> result (step (Reads_settle (length (running s))) (runAnalysis m s))
        = (if language s = en then errorMessageEn else errorMessageUr)
    \<and> inputs (step (Reads_settle (length (running s))) (runAnalysis m s)) = inputs s
    \<and> attachments (step (Reads_settle (length (running s))) (runAnalysis m s)) = attachments s"
proof -
  have fails: "build_request s m = Inl ReadError"
    using assms(2,3) by (auto simp: build_request_Inl)
  have nonempty: "concat (Object_values (attachments s)) \<noteq> []"
    using assms(2) by fastforce
  have run: "runAnalysis m s =
      s\<lparr>loading := True, activeTab := Tab_results, result := '''',
        running := running s @ [Reading (language s) (Inl ReadError)]\<rparr>"
    using runAnalysis_suspended [OF assms(1) nonempty] fails by simp
  show ?thesis
    unfolding run
    by (simp add: index_opt_append_last after_reads_def catch_finally_def)
qed

theorem read_failure_aborts_witness:
  "requests
     (step (Reads_settle 0)
        (runAnalysis None
           ((initial (Some ''key''))
              \<lparr>attachments :=
                 [(Kfield, [\<lparr>att_id = ''k3j9x0q2a'',
                             att_file = \<lparr>name = ''core_log.pdf'', type = ''application/pdf'',
                                          asText = None, asDataURL = None\<rparr>,
                             previewUrl = None, att_type = T_pdf\<rparr>]),
                  (KhandSpecimen, []), (Kmicroscopy, []), (Kgeochemistry, []),
                  (KremoteSensing, [])]\<rparr>))) = []
   \<and> result
     (step (Reads_settle 0)
        (runAnalysis None
           ((initial (Some ''key''))
              \<lparr>attachments :=
                 [(Kfield, [\<lparr>att_id = ''k3j9x0q2a'',
                             att_file = \<lparr>name = ''core_log.pdf'', type = ''application/pdf'',
                                          asText = None, asDataURL = None\<rparr>,
                             previewUrl = None, att_type = T_pdf\<rparr>]),
                  (KhandSpecimen, []), (Kmicroscopy, []), (Kgeochemistry, []),
                  (KremoteSensing, [])]\<rparr>))) = errorMessageEn"
  using read_failure_aborts [of
      "(initial (Some ''key''))
              \<lparr>attachments :=
                 [(Kfield, [\<lparr>att_id = ''k3j9x0q2a'',
                             att_file = \<lparr>name = ''core_log.pdf'', type = ''application/pdf'',
                                          asText = None, asDataURL = None\<rparr>,
                             previewUrl = None, att_type = T_pdf\<rparr>]),
                  (KhandSpecimen, []), (Kmicroscopy, []), (Kgeochemistry, []),
                  (KremoteSensing, [])]\<rparr>"
      "\<lparr>att_id = ''k3j9x0q2a'',
                             att_file = \<lparr>name = ''core_log.pdf'', type = ''application/pdf'',
                                          asText = None, asDataURL = None\<rparr>,
                             previewUrl = None, att_type = T_pdf\<rparr>" None]
  by (simp add: initial_def truthy_def Object_values_def fileToGenerativePart_def
      startsWith_def endsWith_def)

subsection \<open>C5: the outcome of the backend call\<close>

text \<open>
  C5 says that a response with empty or missing text ends in the localized error
  message, like a failed call. In the source only a thrown error reaches the \<^verbatim>\<open>catch\<close>
  block; an empty or missing text is replaced by the English literal
  \<^verbatim>\<open>No analysis generated.\<close>, also when the language is Urdu.
\<close>

theorem empty_response_counterexample:
  "result (exec [Toggle_language, Press_analyze, Call_settle 0 (Returned None)]
             (initial (Some ''key'')))
     = ''No analysis generated.''
   \<and> result (exec [Press_analyze, Call_settle 0 (Returned (Some ''''))]
               (initial (Some ''key'')))
     = ''No analysis generated.''
   \<and> ''No analysis generated.'' \<noteq> errorMessageUr
   \<and> ''No analysis generated.'' \<noteq> errorMessageEn"
proof -
  have run: "running (step Press_analyze s) = [Calling (language s)]"
    if "API_KEY s = Some ''key''" "attachments s = INITIAL_ATTACHMENTS"
      "activeTab s = Tab_inputs" "\<not> loading s" "running s = []" for s
  proof -
    have "truthy (API_KEY s)" "concat (Object_values (attachments s)) = []"
      using that by (simp_all add: truthy_def Object_values_def INITIAL_ATTACHMENTS_def)
    from runAnalysis_immediate [OF this] that show ?thesis by simp
  qed
  have settle: "result (step (Call_settle 0 r) (step Press_analyze s))
      = (case r of Threw \<Rightarrow> (if language s = en then errorMessageEn else errorMessageUr)
         | Returned t \<Rightarrow> or_default t ''No analysis generated.'')"
    if "API_KEY s = Some ''key''" "attachments s = INITIAL_ATTACHMENTS"
      "activeTab s = Tab_inputs" "\<not> loading s" "running s = []" for s r
    using run [OF that]
    by (simp add: index_opt_def after_call_def catch_finally_def split: Response.splits)
  have "result (exec [Toggle_language, Press_analyze, Call_settle 0 (Returned None)]
             (initial (Some ''key''))) = ''No analysis generated.''"
    unfolding exec_def using settle [of "step Toggle_language (initial (Some ''key''))"]
    by (simp add: initial_def or_default_def)
  moreover have "result (exec [Press_analyze, Call_settle 0 (Returned (Some ''''))]
               (initial (Some ''key''))) = ''No analysis generated.''"
    unfolding exec_def using settle [of "initial (Some ''key'')"]
    by (simp add: initial_def or_default_def)
  moreover have "''No analysis generated.'' \<noteq> errorMessageUr"
    "''No analysis generated.'' \<noteq> errorMessageEn"
    by (simp_all add: errorMessageUr_def errorMessageEn_def)
  ultimately show ?thesis by simp
qed

text \<open>
  C5 as amended: when the backend call of a submission settles, \<open>loading\<close> becomes false
  and the inputs and attachments stay. If the call threw, the held result becomes the
  fixed error sentence of the language in which the submission was started; if it
  returned an empty or missing text, the result becomes the literal
  \<^verbatim>\<open>No analysis generated.\<close> in either language; otherwise it becomes the returned text.
\<close>

theorem backend_outcomes:
  assumes "index_opt (running s) n = Some (Calling l)"
  shows "result (step (Call_settle n Threw) s)
       = (if l = en then errorMessageEn else errorMessageUr)
    \<and> result (step (Call_settle n (Returned None)) s) = ''No analysis generated.''
    \<and> result (step (Call_settle n (Returned (Some t))) s)
       = (if t = '''' then ''No analysis generated.'' else t)
    \<and> loading (step (Call_settle n r) s) = False
    \<and> inputs (step (Call_settle n r) s) = inputs s
    \<and> attachments (step (Call_settle n r) s) = attachments s"
  using assms
  by (cases r) (simp_all add: after_call_def catch_finally_def or_default_def)

theorem backend_outcomes_witness:
  "index_opt (running (step Press_analyze (initial (Some ''key'')))) 0 = Some (Calling en)
   \<and> result (step (Call_settle 0 Threw) (step Press_analyze (initial (Some ''key''))))
     = errorMessageEn
   \<and> result (step (Call_settle 0 (Returned (Some ''Porphyry Cu-Au, 80%'')))
               (step Press_analyze (initial (Some ''key''))))
     = ''Porphyry Cu-Au, 80%''"
proof -
  have "truthy (API_KEY (initial (Some ''key'')))"
    "concat (Object_values (attachments (initial (Some ''key'')))) = []"
    by (simp_all add: initial_def truthy_def Object_values_def INITIAL_ATTACHMENTS_def)
  from runAnalysis_immediate [OF this, of None]
  have task: "index_opt (running (step Press_analyze (initial (Some ''key'')))) 0
      = Some (Calling en)"
    by (simp add: initial_def index_opt_def)
  from backend_outcomes [OF task, of "''Porphyry Cu-Au, 80%''"] task
  show ?thesis by simp
qed

subsection \<open>C6: preview handles\<close>

text \<open>
  C6 says that the preview handle of an image attachment is released exactly once, when
  the attachment is removed or when the store is cleared. The source calls
  \<^verbatim>\<open>URL.createObjectURL\<close> and never \<^verbatim>\<open>URL.revokeObjectURL\<close>: after an image has been added
  and removed again, its record is gone and its URL is still allocated.
\<close>

theorem preview_handle_counterexample:
  "get_attachments
     (attachments
        (exec [Add_files Kfield
                 (Some [\<lparr>picked = \<lparr>name = ''outcrop.png'', type = ''image/png'',
                                    asText = Some ''?PNG'',
                                    asDataURL = Some ''data:image/png;base64,iVBORw0KGgo=''\<rparr>,
                          rand_id = ''k3j9x0q2a'', blob_url = ''blob:preview-1''\<rparr>]),
               Remove_file Kfield ''k3j9x0q2a'']
           (initial (Some ''key''))))
     Kfield = []
   \<and> objectURLs
       (exec [Add_files Kfield
                (Some [\<lparr>picked = \<lparr>name = ''outcrop.png'', type = ''image/png'',
                                   asText = Some ''?PNG'',
                                   asDataURL = Some ''data:image/png;base64,iVBORw0KGgo=''\<rparr>,
                         rand_id = ''k3j9x0q2a'', blob_url = ''blob:preview-1''\<rparr>]),
              Remove_file Kfield ''k3j9x0q2a'']
          (initial (Some ''key'')))
     = [''blob:preview-1'']"
  by (simp add: exec_def initial_def handleAddAttachment_def handleRemoveAttachment_def
      get_attachments_update get_attachments_def INITIAL_ATTACHMENTS_def newAttachment_def
      startsWith_def)

text \<open>
  C6 as amended: a preview handle is allocated for each image file that is added, and it
  is never released. \<^verbatim>\<open>handleRemoveAttachment\<close> and \<^verbatim>\<open>clearInputs\<close> drop records and leave
  every allocated URL in place, and so does every sequence of events; hence no handle is
  released twice, and every handle outlives its attachment.
\<close>

theorem preview_handles_never_released:
  "objectURLs (handleAddAttachment c (Some fs) s)
     = objectURLs s @ map blob_url (filter (\<lambda>p. startsWith (type (picked p)) ''image/'') fs)
   \<and> map previewUrl (map newAttachment fs)
     = map (\<lambda>p. if startsWith (type (picked p)) ''image/'' then Some (blob_url p) else None) fs
   \<and> objectURLs (handleRemoveAttachment c i s) = objectURLs s
   \<and> objectURLs (clearInputs s) = objectURLs s
   \<and> take (length (objectURLs s)) (objectURLs (exec evs s)) = objectURLs s"
proof -
  obtain new where "objectURLs (exec evs s) = objectURLs s @ new"
    using exec_objectURLs by blast
  then show ?thesis
    by (simp add: handleAddAttachment_def handleRemoveAttachment_def clearInputs_def
        newAttachment_def comp_def)
qed

subsection \<open>C7: the rule of the encoder\<close>

text \<open>
  C7 says that a file is encoded as text exactly if its MIME type begins with \<^verbatim>\<open>text/\<close> or
  its name ends in one of csv, json, md, txt. The source tests the name for \<^verbatim>\<open>.csv\<close>,
  \<^verbatim>\<open>.json\<close> and \<^verbatim>\<open>.md\<close> only: a file named \<^verbatim>\<open>notes.txt\<close> whose declared type does not
  begin with \<^verbatim>\<open>text/\<close> is read as a data URL and becomes an inline-data part.
\<close>

theorem encoder_txt_counterexample:
  "endsWith ''notes.txt'' ''.txt''
   \<and> fileToGenerativePart
       \<lparr>name = ''notes.txt'', type = ''application/octet-stream'', asText = Some ''hello'',
        asDataURL = Some ''data:application/octet-stream;base64,aGVsbG8=''\<rparr>
     = Inr (PInlineData (Some ''aGVsbG8='') ''application/octet-stream'')"
  by (simp add: fileToGenerativePart_def startsWith_def endsWith_def index_opt_def)

text \<open>
  C7 as amended: for every file whose read succeeds, the encoder yields a text part
  exactly if the declared MIME type begins with \<^verbatim>\<open>text/\<close> or the name ends in \<^verbatim>\<open>.csv\<close>,
  \<^verbatim>\<open>.json\<close> or \<^verbatim>\<open>.md\<close>; its content is the marker line naming the file, the decoded text
  and a final line break. For every other file it yields an inline-data part with the
  declared MIME type and the payload of the data URL, that is its base64 text.
\<close>

theorem encoder_rule:
  assumes "asText f = Some r"
    and "asDataURL f = Some (''data:'' @ mt @ '';base64,'' @ b)"
    and "CHR '','' \<notin> set mt" and "CHR '','' \<notin> set b"
  shows "fileToGenerativePart f =
     (if startsWith (type f) ''text/'' \<or> endsWith (name f) ''.csv''
         \<or> endsWith (name f) ''.json'' \<or> endsWith (name f) ''.md''
      then Inr (PText (''\<newline>[File Attachment: '' @ name f @ '']\<newline>'' @ r @ ''\<newline>''))
      else Inr (PInlineData (Some b) (type f)))"
proof -
  have "CHR '','' \<notin> set (''data:'' @ mt @ '';base64'')"
    using assms(3) by simp
  from split_on_payload [OF this assms(4)]
  have "index_opt (split_on CHR '','' (''data:'' @ mt @ '';base64,'' @ b)) 1 = Some b"
    by simp
  then show ?thesis
    using assms(1,2) by (simp add: fileToGenerativePart_def)
qed

theorem encoder_rule_witness:
  "fileToGenerativePart
     \<lparr>name = ''assay.csv'', type = ''application/vnd.ms-excel'', asText = Some ''Cu,Au'',
      asDataURL = Some ''data:application/vnd.ms-excel;base64,Q3UsQXU=''\<rparr>
     = Inr (PText ''\<newline>[File Attachment: assay.csv]\<newline>Cu,Au\<newline>'')
   \<and> fileToGenerativePart
       \<lparr>name = ''outcrop.png'', type = ''image/png'', asText = Some ''?PNG'',
        asDataURL = Some ''data:image/png;base64,iVBORw0KGgo=''\<rparr>
     = Inr (PInlineData (Some ''iVBORw0KGgo='') ''image/png'')"
  using
    encoder_rule [of "\<lparr>name = ''assay.csv'', type = ''application/vnd.ms-excel'',
        asText = Some ''Cu,Au'',
        asDataURL = Some ''data:application/vnd.ms-excel;base64,Q3UsQXU=''\<rparr>"
      "''Cu,Au''" "''application/vnd.ms-excel''" "''Q3UsQXU=''"]
    encoder_rule [of "\<lparr>name = ''outcrop.png'', type = ''image/png'', asText = Some ''?PNG'',
        asDataURL = Some ''data:image/png;base64,iVBORw0KGgo=''\<rparr>"
      "''?PNG''" "''image/png''" "''iVBORw0KGgo=''"]
  by (simp add: startsWith_def endsWith_def)

subsection \<open>C8: the search filter\<close>

text \<open>
  C8: with the empty query nothing is filtered out, so every list of the catalogue is
  returned as it is; in general an item stays exactly if its label, in lower case,
  contains the query, in lower case, as a contiguous substring, the items that stay keep
  their order, and the case of the query does not matter. The query \<^verbatim>\<open>OrE\<close> keeps the item
  labelled \<^verbatim>\<open>3. Ore Petrography\<close> in both languages.
\<close>

theorem search_filter:
  "showDataInput l '''' \<and> filteredModules l '''' = moduleList l
   \<and> filteredTools l '''' = toolList l
   \<and> filteredModules l q =
       filter (\<lambda>m. \<exists>pre suf. toLowerCase (label m) = pre @ toLowerCase q @ suf) (moduleList l)
   \<and> filteredTools l q =
       filter (\<lambda>m. \<exists>pre suf. toLowerCase (label m) = pre @ toLowerCase q @ suf) (toolList l)
   \<and> showDataInput l q = (\<exists>pre suf. toLowerCase (dataInputLabel l) = pre @ toLowerCase q @ suf)
   \<and> filteredModules l (toLowerCase q) = filteredModules l q
   \<and> filteredTools l (toLowerCase q) = filteredTools l q
   \<and> filter (\<lambda>m. label m = ''3. Ore Petrography'') (filteredModules l ''OrE'')
       = [\<lparr>label = ''3. Ore Petrography'', description = dsc_module3 (MODULE_DESCRIPTIONS l)\<rparr>]"
proof -
  have ore: "includes_s (toLowerCase ''3. Ore Petrography'') (toLowerCase ''OrE'')"
    unfolding toLowerCase_OrE toLowerCase_module3 by (simp add: startsWith_def)
  have distinct: "lbl_module1 (LABELS l) \<noteq> ''3. Ore Petrography''"
    "lbl_module2 (LABELS l) \<noteq> ''3. Ore Petrography''"
    "lbl_module4 (LABELS l) \<noteq> ''3. Ore Petrography''"
    "lbl_module5 (LABELS l) \<noteq> ''3. Ore Petrography''"
    "lbl_module6 (LABELS l) \<noteq> ''3. Ore Petrography''"
    by (cases l; simp add: LABELS_def LABELS_en_def LABELS_ur_def)+
  have kept: "filter (\<lambda>m. label m = ''3. Ore Petrography'') (filteredModules l ''OrE'')
       = [\<lparr>label = ''3. Ore Petrography'', description = dsc_module3 (MODULE_DESCRIPTIONS l)\<rparr>]"
    using ore distinct by (simp add: filteredModules_def moduleList_def lbl_module3)
  have empty: "showDataInput l ''''" "filteredModules l '''' = moduleList l"
    "filteredTools l '''' = toolList l"
    by (simp_all add: filteredModules_empty_query filteredTools_empty_query showDataInput_def
        toLowerCase_def includes_s_empty)
  have substring: "filteredModules l q =
       filter (\<lambda>m. \<exists>pre suf. toLowerCase (label m) = pre @ toLowerCase q @ suf) (moduleList l)"
    "filteredTools l q =
       filter (\<lambda>m. \<exists>pre suf. toLowerCase (label m) = pre @ toLowerCase q @ suf) (toolList l)"
    "showDataInput l q = (\<exists>pre suf. toLowerCase (dataInputLabel l) = pre @ toLowerCase q @ suf)"
    by (simp_all add: filteredModules_def filteredTools_def showDataInput_def includes_s_iff)
  have anycase: "filteredModules l (toLowerCase q) = filteredModules l q"
    "filteredTools l (toLowerCase q) = filteredTools l q"
    by (simp_all add: filteredModules_def filteredTools_def toLowerCase_idem)
  from empty substring anycase kept show ?thesis
    by (intro conjI)
qed

subsection \<open>C9: the kind of a new attachment\<close>

text \<open>
  C9: \<^verbatim>\<open>handleAddAttachment\<close>, called with a file list, appends one record per file to the
  list of its category. The record of a file is of kind image if the MIME type of the
  file starts with \<^verbatim>\<open>image/\<close>, of kind pdf if the type is \<^verbatim>\<open>application/pdf\<close>, and of kind
  text for every other file. No record is of kind other, neither among the new ones nor
  in any state the component reaches.
\<close>

theorem attachment_kinds:
  "get_attachments (attachments (handleAddAttachment c (Some fs) s)) c
     = get_attachments (attachments s) c @ map newAttachment fs
   \<and> map att_file (map newAttachment fs) = map picked fs
   \<and> map att_type (map newAttachment fs)
     = map (\<lambda>p. if startsWith (type (picked p)) ''image/'' then T_image
                else if type (picked p) = ''application/pdf'' then T_pdf else T_text) fs
   \<and> T_other \<notin> set (map att_type (map newAttachment fs))
   \<and> T_other \<notin> set (map att_type (concat (Object_values (attachments (exec evs (initial key))))))"
proof -
  have new: "att_type (newAttachment p) \<noteq> T_other" for p
    by (simp add: newAttachment_def)
  have "\<forall>a \<in> set (concat (Object_values (attachments (exec evs (initial key))))).
          att_type a \<noteq> T_other"
  proof (rule exec_induct)
    show "\<forall>a \<in> set (concat (Object_values (attachments (initial key)))). att_type a \<noteq> T_other"
      by (simp add: initial_def INITIAL_ATTACHMENTS_def Object_values_def)
  next
    fix e and t :: App
    assume "\<forall>a \<in> set (concat (Object_values (attachments t))). att_type a \<noteq> T_other"
    then show "\<forall>a \<in> set (concat (Object_values (attachments (step e t)))). att_type a \<noteq> T_other"
      using new by (rule all_attachments_step)
  qed
  then have reach:
    "T_other \<notin> set (map att_type (concat (Object_values (attachments (exec evs (initial key))))))"
    by fastforce
  have "T_other \<notin> set (map att_type (map newAttachment fs))"
    by (auto simp: newAttachment_def)
  with reach show ?thesis
    by (simp add: handleAddAttachment_def get_attachments_update newAttachment_def comp_def)
qed

subsection \<open>C10: what \<open>clearInputs\<close> resets and what it keeps\<close>

text \<open>
  C10: \<^verbatim>\<open>clearInputs\<close> empties the text of every category, the attachment list of every
  category and the held result, and leaves the active view, the loading flag and the
  language as they are.
\<close>

theorem clearInputs_effect:
  "field (inputs (clearInputs s)) = '''' \<and> handSpecimen (inputs (clearInputs s)) = ''''
   \<and> microscopy (inputs (clearInputs s)) = '''' \<and> geochemistry (inputs (clearInputs s)) = ''''
   \<and> remoteSensing (inputs (clearInputs s)) = ''''
   \<and> map (get_attachments (attachments (clearInputs s))) categories = [[], [], [], [], []]
   \<and> concat (Object_values (attachments (clearInputs s))) = []
   \<and> result (clearInputs s) = ''''
   \<and> activeTab (clearInputs s) = activeTab s \<and> loading (clearInputs s) = loading s
   \<and> language (clearInputs s) = language s"
  by (simp add: clearInputs_def INITIAL_INPUTS_def INITIAL_ATTACHMENTS_def categories_def
      get_attachments_def Object_values_def)

end
